theory Spec2Isabelle
  imports Main "HOL-Library.Word"
begin

unbundle bit_operations_syntax

section \<open>Kernel types and constants used by tagfs\_inode.c\<close>

text \<open>
  The file under verification is \<^verbatim>\<open>tagfs/tagfs_inode.c\<close>. It is written against the Linux
  VFS; the helpers it calls (\<^verbatim>\<open>new_inode\<close>, \<^verbatim>\<open>inode_init_owner\<close>, \<^verbatim>\<open>d_instantiate\<close>,
  \<^verbatim>\<open>iput\<close>, \<^verbatim>\<open>fs_parse\<close>, ...) live in other files of the kernel tree. Each helper has a
  small model here. Where the specification says what the helper is for, the comment of
  the model starts with "Modelled from the spec:" and quotes it; what the specification
  leaves open follows the helper's definition in the kernel, whose file is named. Every
  outcome that only the environment decides (whether an allocation succeeds, what the
  page cache answers) is an explicit argument of the function that depends on it.
  The functions of the C file itself are translated statement by statement.
\<close>

type_synonym umode_t = "16 word"
type_synonym dev_t = "32 word"
type_synonym time = nat
type_synonym iptr = nat
type_synonym dptr = nat
type_synonym sbptr = nat
type_synonym fsiptr = nat

text \<open>File-type and permission bits of \<^verbatim>\<open>include/uapi/linux/stat.h\<close> (octal in C).\<close>

definition S_IFMT :: umode_t where "S_IFMT = 0xF000"      \<comment> \<open>0170000\<close>
definition S_IFLNK :: umode_t where "S_IFLNK = 0xA000"    \<comment> \<open>0120000\<close>
definition S_IFREG :: umode_t where "S_IFREG = 0x8000"    \<comment> \<open>0100000\<close>
definition S_IFBLK :: umode_t where "S_IFBLK = 0x6000"    \<comment> \<open>0060000\<close>
definition S_IFDIR :: umode_t where "S_IFDIR = 0x4000"    \<comment> \<open>0040000\<close>
definition S_IFCHR :: umode_t where "S_IFCHR = 0x2000"    \<comment> \<open>0020000\<close>
definition S_IFIFO :: umode_t where "S_IFIFO = 0x1000"    \<comment> \<open>0010000\<close>
definition S_ISGID :: umode_t where "S_ISGID = 0x400"     \<comment> \<open>0002000\<close>
definition S_IRWXUGO :: umode_t where "S_IRWXUGO = 0x1FF" \<comment> \<open>0777\<close>
definition S_IALLUGO :: umode_t where "S_IALLUGO = 0xFFF" \<comment> \<open>07777\<close>

text \<open>\<^verbatim>\<open>#define TAGFS_DEFAULT_MODE 0755\<close>\<close>

definition TAGFS_DEFAULT_MODE :: umode_t where "TAGFS_DEFAULT_MODE = 0x1ED"

text \<open>Error numbers, returned negated.\<close>

definition ENOMEM :: int where "ENOMEM = 12"
definition EEXIST :: int where "EEXIST = 17"
definition EINVAL :: int where "EINVAL = 22"
definition ENOSPC :: int where "ENOSPC = 28"
definition ENOTEMPTY :: int where "ENOTEMPTY = 39"
definition ENOPARAM :: int where "ENOPARAM = 519"

text \<open>
  A kernel \<^verbatim>\<open>BUG_ON\<close> or the dereference of a pointer that refers to no live object does
  not return: it is the left summand of every fallible operation.
\<close>

datatype fault = BUG | Oops

subsection \<open>Object heaps\<close>

text \<open>
  Objects that the C code reaches through pointers live in heaps. A heap is a list of
  slots; a pointer is an index, a freed slot is \<open>None\<close>, and an allocation takes the next
  index, so a new object never aliases an old one.
\<close>

type_synonym 'a heap = "'a option list"

definition heap_at :: "'a heap \<Rightarrow> nat \<Rightarrow> 'a option" where
  "heap_at h p = (if p < length h then h ! p else None)"

definition heap_alloc :: "'a heap \<Rightarrow> 'a \<Rightarrow> nat \<times> 'a heap" where
  "heap_alloc h v = (length h, h @ [Some v])"

definition heap_upd :: "'a heap \<Rightarrow> nat \<Rightarrow> ('a \<Rightarrow> 'a) \<Rightarrow> 'a heap" where
  "heap_upd h p f = (case heap_at h p of None \<Rightarrow> h | Some v \<Rightarrow> h[p := Some (f v)])"

definition heap_free :: "'a heap \<Rightarrow> nat \<Rightarrow> 'a heap" where
  "heap_free h p = (if p < length h then h[p := None] else h)"

subsection \<open>struct inode\<close>

datatype iops = Empty_iops | Tagfs_file_inode_operations | Tagfs_dir_inode_operations
  | Page_symlink_inode_operations

datatype fops = No_open_fops | Tagfs_file_operations | Simple_dir_operations
  | Def_chr_fops | Def_blk_fops | Pipefifo_fops

datatype aops = Empty_aops | Ram_aops

datatype gfp = GFP_HIGHUSER_MOVABLE | GFP_HIGHUSER | GFP_USER

record inode =
  i_ino :: "64 word"
  i_sb :: sbptr
  i_mode :: umode_t
  i_uid :: nat
  i_gid :: nat
  i_nlink :: "32 word"
  i_rdev :: dev_t
  i_atime :: time
  i_mtime :: time
  i_ctime :: time
  i_count :: nat
  i_op :: iops
  i_fop :: fops
  a_ops :: aops
  gfp_mask :: gfp
  unevictable :: bool
  i_data :: "string option"

subsection \<open>struct dentry, struct super\_block, struct tagfs\_fs\_info\<close>

record dentry =
  d_inode :: "iptr option"
  d_count :: nat
  d_sb :: sbptr
  d_subdirs :: "dptr list"

datatype sops = No_sops | Tagfs_ops

record super_block =
  s_fs_info :: "fsiptr option"
  s_root :: "dptr option"
  s_maxbytes :: nat
  s_blocksize :: nat
  s_blocksize_bits :: nat
  s_magic :: nat
  s_op :: sops
  s_time_gran :: nat

text \<open>
  \<^verbatim>\<open>struct tagfs_fs_info\<close> and \<^verbatim>\<open>struct tagfs_mount_opts\<close> are declared in
  \<^verbatim>\<open>tagfs_internal.h\<close>, which is not part of the file; the fields are those the C file reads
  and writes. \<open>mo_mode\<close> is \<^verbatim>\<open>mount_opts.mode\<close>.
\<close>

datatype mutex = Mutex_zeroed | Mutex_ready | Mutex_destroyed

record tagfs_mount_opts =
  mo_mode :: umode_t

record tagfs_fs_info =
  fsi_mutex :: mutex
  mount_opts :: tagfs_mount_opts
  bdevp :: "nat option"
  dax_devp :: "nat option"

subsection \<open>The kernel state\<close>

text \<open>
  \<open>klog\<close> records, in call order, the calls that give a resource back
  (\<^verbatim>\<open>kfree\<close>, \<^verbatim>\<open>blkdev_put\<close>, \<^verbatim>\<open>fs_put_dax\<close>, \<^verbatim>\<open>kill_litter_super\<close>).
\<close>

datatype event = Mutex_destroy fsiptr | Blkdev_put nat nat | Fs_put_dax nat fsiptr
  | Kfree fsiptr | Kill_litter_super sbptr

record kstate =
  inodes :: "inode heap"
  dentries :: "dentry heap"
  supers :: "super_block heap"
  fsinfo :: "tagfs_fs_info heap"
  last_ino :: "32 word"
  clock :: time
  fsuid :: nat
  fsgid :: nat
  klog :: "event list"

definition inode_at :: "kstate \<Rightarrow> iptr \<Rightarrow> inode option" where
  "inode_at s p = heap_at (inodes s) p"

definition dentry_at :: "kstate \<Rightarrow> dptr \<Rightarrow> dentry option" where
  "dentry_at s p = heap_at (dentries s) p"

definition super_at :: "kstate \<Rightarrow> sbptr \<Rightarrow> super_block option" where
  "super_at s p = heap_at (supers s) p"

definition fsinfo_at :: "kstate \<Rightarrow> fsiptr \<Rightarrow> tagfs_fs_info option" where
  "fsinfo_at s p = heap_at (fsinfo s) p"

definition upd_inode :: "iptr \<Rightarrow> (inode \<Rightarrow> inode) \<Rightarrow> kstate \<Rightarrow> kstate" where
  "upd_inode p f s = s\<lparr>inodes := heap_upd (inodes s) p f\<rparr>"

definition upd_dentry :: "dptr \<Rightarrow> (dentry \<Rightarrow> dentry) \<Rightarrow> kstate \<Rightarrow> kstate" where
  "upd_dentry p f s = s\<lparr>dentries := heap_upd (dentries s) p f\<rparr>"

definition upd_super :: "sbptr \<Rightarrow> (super_block \<Rightarrow> super_block) \<Rightarrow> kstate \<Rightarrow> kstate" where
  "upd_super p f s = s\<lparr>supers := heap_upd (supers s) p f\<rparr>"

definition upd_fsinfo :: "fsiptr \<Rightarrow> (tagfs_fs_info \<Rightarrow> tagfs_fs_info) \<Rightarrow> kstate \<Rightarrow> kstate" where
  "upd_fsinfo p f s = s\<lparr>fsinfo := heap_upd (fsinfo s) p f\<rparr>"

section \<open>VFS helpers called by the node store\<close>

text \<open>
  Modelled from the spec: \<^verbatim>\<open>new_inode\<close> (fs/inode.c) is not part of the file. The
  specification says of the allocation that it "initializes link count to 1, or 2 for
  directories" and "never fails except on resource exhaustion". The helper either returns
  NULL or a new inode that \<^verbatim>\<open>inode_init_always\<close> has set up for the super block, with one
  reference and link count 1. \<open>ok\<close> is the allocator's answer.
\<close>

definition blank_inode :: "sbptr \<Rightarrow> inode" where
  "blank_inode sb = \<lparr>i_ino = 0, i_sb = sb, i_mode = 0, i_uid = 0, i_gid = 0, i_nlink = 1,
     i_rdev = 0, i_atime = 0, i_mtime = 0, i_ctime = 0, i_count = 1, i_op = Empty_iops,
     i_fop = No_open_fops, a_ops = Empty_aops, gfp_mask = GFP_HIGHUSER_MOVABLE,
     unevictable = False, i_data = None\<rparr>"

definition new_inode :: "bool \<Rightarrow> kstate \<Rightarrow> sbptr \<Rightarrow> iptr option \<times> kstate" where
  "new_inode ok s sb =
     (if ok then (case heap_alloc (inodes s) (blank_inode sb) of
                    (p, h) \<Rightarrow> (Some p, s\<lparr>inodes := h\<rparr>))
      else (None, s))"

text \<open>
  Modelled from the spec: \<^verbatim>\<open>get_next_ino\<close> (fs/inode.c) is not part of the file. The
  specification asks for "a unique, monotonically assigned identifier". The helper
  (its uniprocessor path) gives the next value of an unsigned counter, never 0.
\<close>

definition get_next_ino :: "kstate \<Rightarrow> 32 word \<times> kstate" where
  "get_next_ino s =
     (let res = last_ino s + 1;
          res = (if res = 0 then res + 1 else res)
      in (res, s\<lparr>last_ino := res\<rparr>))"

text \<open>
  Modelled from the spec: \<^verbatim>\<open>inode_init_owner\<close> (fs/inode.c) is not part of the file. The
  specification says that a node "inherits ownership from the creating context". Under
  \<^verbatim>\<open>nop_mnt_idmap\<close> the helper takes the owner from the caller's credentials, and the group
  and the set-group-id bit from a set-group-id directory.
  \<open>dir\<close> is \<^verbatim>\<open>const struct inode *\<close>, read only, and may be NULL.
\<close>

definition inode_init_owner :: "kstate \<Rightarrow> inode \<Rightarrow> inode option \<Rightarrow> umode_t \<Rightarrow> inode" where
  "inode_init_owner s inode dir mode =
     (let inode = inode\<lparr>i_uid := fsuid s\<rparr> in
      case dir of
        None \<Rightarrow> inode\<lparr>i_gid := fsgid s, i_mode := mode\<rparr>
      | Some d \<Rightarrow>
          if i_mode d AND S_ISGID \<noteq> 0
          then inode\<lparr>i_gid := i_gid d,
                     i_mode := (if mode AND S_IFMT = S_IFDIR then mode OR S_ISGID else mode)\<rparr>
          else inode\<lparr>i_gid := fsgid s, i_mode := mode\<rparr>)"

text \<open>
  Modelled from the spec: \<^verbatim>\<open>current_time\<close> (fs/inode.c) is not part of the file. The
  specification says that allocation "sets timestamps to current time". The helper reads
  the clock of the environment; tagfs sets \<^verbatim>\<open>s_time_gran = 1\<close>, so the value is not truncated.
\<close>

definition current_time :: "kstate \<Rightarrow> time" where
  "current_time s = clock s"

text \<open>
  Modelled from the spec: \<^verbatim>\<open>inc_nlink\<close> and \<^verbatim>\<open>drop_nlink\<close> (fs/inode.c) are not part of the
  file. The specification has "link_count_adjust(node, delta): atomically adjusts link
  count". The helpers are \<^verbatim>\<open>inode->__i_nlink++\<close> and \<^verbatim>\<open>inode->__i_nlink--\<close> on an unsigned int.
\<close>

definition inc_nlink :: "inode \<Rightarrow> inode" where
  "inc_nlink inode = inode\<lparr>i_nlink := i_nlink inode + 1\<rparr>"

definition drop_nlink :: "inode \<Rightarrow> inode" where
  "drop_nlink inode = inode\<lparr>i_nlink := i_nlink inode - 1\<rparr>"

text \<open>
  Modelled from the spec: \<^verbatim>\<open>init_special_inode\<close> (fs/inode.c) is not part of the file. The
  specification says that allocation "sets device descriptor for special nodes". The
  helper sets the mode, and the device number and the file operations by kind.
\<close>

definition init_special_inode :: "inode \<Rightarrow> umode_t \<Rightarrow> dev_t \<Rightarrow> inode" where
  "init_special_inode inode mode rdev =
     (let inode = inode\<lparr>i_mode := mode\<rparr> in
      if mode AND S_IFMT = S_IFCHR then inode\<lparr>i_fop := Def_chr_fops, i_rdev := rdev\<rparr>
      else if mode AND S_IFMT = S_IFBLK then inode\<lparr>i_fop := Def_blk_fops, i_rdev := rdev\<rparr>
      else if mode AND S_IFMT = S_IFIFO then inode\<lparr>i_fop := Pipefifo_fops\<rparr>
      else inode)"

section \<open>tagfs\_get\_inode\<close>

text \<open>
  The body of \<^verbatim>\<open>if (inode) { ... }\<close>, statement by statement, on the new inode.
  The \<^verbatim>\<open>switch (mode & S_IFMT)\<close> has the cases S\_IFREG, S\_IFDIR, S\_IFLNK and a default.
\<close>

definition tagfs_init_inode :: "kstate \<Rightarrow> 32 word \<Rightarrow> inode option \<Rightarrow> umode_t \<Rightarrow> dev_t \<Rightarrow> inode \<Rightarrow> inode" where
  "tagfs_init_inode s ino dir mode dev inode =
     (let inode = inode\<lparr>i_ino := ucast ino\<rparr>;
          inode = inode_init_owner s inode dir mode;
          inode = inode\<lparr>a_ops := Ram_aops\<rparr>;
          inode = inode\<lparr>gfp_mask := GFP_HIGHUSER\<rparr>;
          inode = inode\<lparr>unevictable := True\<rparr>;
          now = current_time s;
          inode = inode\<lparr>i_atime := now, i_mtime := now, i_ctime := now\<rparr>
      in if mode AND S_IFMT = S_IFREG
         then inode\<lparr>i_op := Tagfs_file_inode_operations, i_fop := Tagfs_file_operations\<rparr>
         else if mode AND S_IFMT = S_IFDIR
         then inc_nlink (inode\<lparr>i_op := Tagfs_dir_inode_operations, i_fop := Simple_dir_operations\<rparr>)
         else if mode AND S_IFMT = S_IFLNK
         then inode\<lparr>i_op := Page_symlink_inode_operations, gfp_mask := GFP_USER\<rparr>
         else init_special_inode inode mode dev)"

definition tagfs_get_inode ::
  "bool \<Rightarrow> kstate \<Rightarrow> sbptr \<Rightarrow> inode option \<Rightarrow> umode_t \<Rightarrow> dev_t \<Rightarrow> iptr option \<times> kstate" where
  "tagfs_get_inode ok s sb dir mode dev =
     (case new_inode ok s sb of
        (None, s1) \<Rightarrow> (None, s1)
      | (Some inode, s1) \<Rightarrow>
          (case get_next_ino s1 of
             (ino, s2) \<Rightarrow> (Some inode, upd_inode inode (tagfs_init_inode s2 ino dir mode dev) s2)))"

text \<open>
  The state in which \<^verbatim>\<open>tagfs_get_inode\<close> sets the new inode up: after \<^verbatim>\<open>new_inode\<close> and
  \<^verbatim>\<open>get_next_ino\<close>.
\<close>

abbreviation alloc_state :: "kstate \<Rightarrow> sbptr \<Rightarrow> kstate" where
  "alloc_state s sb \<equiv> snd (get_next_ino (s\<lparr>inodes := inodes s @ [Some (blank_inode sb)]\<rparr>))"

section \<open>VFS helpers called by the directory operations\<close>

text \<open>
  Modelled from the spec: \<^verbatim>\<open>d_instantiate\<close> (fs/dcache.c) is not part of the file. In the
  specification it is the step that "inserts the entry". The helper binds a negative
  dentry to an inode and returns nothing; the specification does not say what it does
  with a dentry that is already bound to an inode: the kernel's function stops there at
  \<^verbatim>\<open>BUG_ON(!hlist_unhashed(&entry->d_u.d_alias))\<close>.
\<close>

definition d_instantiate :: "kstate \<Rightarrow> dptr \<Rightarrow> iptr \<Rightarrow> fault + kstate" where
  "d_instantiate s entry inode =
     (case dentry_at s entry of
        None \<Rightarrow> Inl Oops
      | Some de \<Rightarrow>
          if d_inode de \<noteq> None then Inl BUG
          else Inr (upd_dentry entry (\<lambda>d. d\<lparr>d_inode := Some inode\<rparr>) s))"

text \<open>
  \<^verbatim>\<open>dget\<close> and \<^verbatim>\<open>dput\<close> (include/linux/dcache.h, fs/dcache.c) are not part of the file:
  one reference more ("Extra count - pin the dentry in core"), one less.
\<close>

definition dget :: "dptr \<Rightarrow> kstate \<Rightarrow> kstate" where
  "dget entry s = upd_dentry entry (\<lambda>d. d\<lparr>d_count := d_count d + 1\<rparr>) s"

definition dput :: "dptr \<Rightarrow> kstate \<Rightarrow> kstate" where
  "dput entry s = upd_dentry entry (\<lambda>d. d\<lparr>d_count := d_count d - 1\<rparr>) s"

text \<open>
  Modelled from the spec: \<^verbatim>\<open>iput\<close> (fs/inode.c) is not part of the file. The specification
  has "release(node): called when link count reaches 0 and no references remain; frees
  content handle". The helper drops one reference; tagfs sets
  \<^verbatim>\<open>.drop_inode = generic_delete_inode\<close>, so dropping the last reference evicts the inode
  and frees it.
\<close>

definition iput :: "iptr \<Rightarrow> kstate \<Rightarrow> kstate" where
  "iput inode s =
     (case inode_at s inode of
        None \<Rightarrow> s
      | Some i \<Rightarrow>
          if i_count i \<le> 1 then s\<lparr>inodes := heap_free (inodes s) inode\<rparr>
          else upd_inode inode (\<lambda>i. i\<lparr>i_count := i_count i - 1\<rparr>) s)"

text \<open>
  Modelled from the spec: \<^verbatim>\<open>page_symlink\<close> (fs/namei.c) is not part of the file. The
  specification describes the collaborator that "accepts a text string at creation time,
  returns it unmodified on read" and whose store step can fail. The helper writes the
  first \<open>len - 1\<close> bytes of the target into the inode's first page and returns 0, or it
  returns the error of the page cache and writes nothing. \<open>rc\<close> is the page cache's answer.
\<close>

definition page_symlink :: "int \<Rightarrow> kstate \<Rightarrow> iptr \<Rightarrow> string \<Rightarrow> nat \<Rightarrow> int \<times> kstate" where
  "page_symlink rc s inode symname len =
     (if rc = 0
      then (0, upd_inode inode (\<lambda>i. i\<lparr>i_data := Some (take (len - 1) symname)\<rparr>) s)
      else (rc, s))"

definition strlen :: "string \<Rightarrow> nat" where
  "strlen str = length str"

section \<open>Directory operations of tagfs\<close>

text \<open>
  Every operation ignores its \<^verbatim>\<open>idmap\<close> argument and passes \<^verbatim>\<open>&nop_mnt_idmap\<close> on; the
  argument is left out. \<open>ok\<close> is the answer of the inode allocator.
\<close>

definition tagfs_mknod ::
  "bool \<Rightarrow> kstate \<Rightarrow> iptr \<Rightarrow> dptr \<Rightarrow> umode_t \<Rightarrow> dev_t \<Rightarrow> fault + (int \<times> kstate)" where
  "tagfs_mknod ok s dir dentry mode dev =
     (case inode_at s dir of
        None \<Rightarrow> Inl Oops
      | Some d \<Rightarrow>
          (case tagfs_get_inode ok s (i_sb d) (Some d) mode dev of
             (None, s1) \<Rightarrow> Inr (- ENOSPC, s1)
           | (Some inode, s1) \<Rightarrow>
               (case d_instantiate s1 dentry inode of
                  Inl f \<Rightarrow> Inl f
                | Inr s2 \<Rightarrow>
                    let s3 = dget dentry s2;
                        now = current_time s3
                    in Inr (0, upd_inode dir (\<lambda>i. i\<lparr>i_mtime := now, i_ctime := now\<rparr>) s3))))"

definition tagfs_mkdir ::
  "bool \<Rightarrow> kstate \<Rightarrow> iptr \<Rightarrow> dptr \<Rightarrow> umode_t \<Rightarrow> fault + (int \<times> kstate)" where
  "tagfs_mkdir ok s dir dentry mode =
     (case tagfs_mknod ok s dir dentry (mode OR S_IFDIR) 0 of
        Inl f \<Rightarrow> Inl f
      | Inr (retval, s1) \<Rightarrow>
          Inr (retval, if retval = 0 then upd_inode dir inc_nlink s1 else s1))"

definition tagfs_create ::
  "bool \<Rightarrow> kstate \<Rightarrow> iptr \<Rightarrow> dptr \<Rightarrow> umode_t \<Rightarrow> bool \<Rightarrow> fault + (int \<times> kstate)" where
  "tagfs_create ok s dir dentry mode excl = tagfs_mknod ok s dir dentry (mode OR S_IFREG) 0"

definition tagfs_symlink ::
  "bool \<Rightarrow> int \<Rightarrow> kstate \<Rightarrow> iptr \<Rightarrow> dptr \<Rightarrow> string \<Rightarrow> fault + (int \<times> kstate)" where
  "tagfs_symlink ok rc s dir dentry symname =
     (case inode_at s dir of
        None \<Rightarrow> Inl Oops
      | Some d \<Rightarrow>
          (case tagfs_get_inode ok s (i_sb d) (Some d) (S_IFLNK OR S_IRWXUGO) 0 of
             (None, s1) \<Rightarrow> Inr (- ENOSPC, s1)
           | (Some inode, s1) \<Rightarrow>
               let l = strlen symname + 1 in
               (case page_symlink rc s1 inode symname l of
                  (error, s2) \<Rightarrow>
                    if error = 0
                    then (case d_instantiate s2 dentry inode of
                            Inl f \<Rightarrow> Inl f
                          | Inr s3 \<Rightarrow>
                              let s4 = dget dentry s3;
                                  now = current_time s4
                              in Inr (error, upd_inode dir (\<lambda>i. i\<lparr>i_mtime := now, i_ctime := now\<rparr>) s4))
                    else Inr (error, iput inode s2))))"

subsection \<open>simple\_rmdir\<close>

text \<open>
  Modelled from the spec: \<^verbatim>\<open>.rmdir = simple_rmdir\<close> is a function of fs/libfs.c, which is
  not part of the file. The specification says of it: "fails NotEmpty unless the target
  directory has no entries besides structural self-references; on success removes entry
  and decrements parent's link count". The model follows the library function: the
  directory loses its two links, the entry loses the reference that \<^verbatim>\<open>tagfs_mknod\<close> pinned
  it with, and the parent loses one link.
\<close>

definition simple_positive :: "kstate \<Rightarrow> dptr \<Rightarrow> bool" where
  "simple_positive s entry =
     (case dentry_at s entry of None \<Rightarrow> False | Some de \<Rightarrow> d_inode de \<noteq> None)"

definition simple_empty :: "kstate \<Rightarrow> dptr \<Rightarrow> bool" where
  "simple_empty s entry =
     (case dentry_at s entry of
        None \<Rightarrow> True
      | Some de \<Rightarrow> filter (simple_positive s) (d_subdirs de) = [])"

definition simple_unlink :: "kstate \<Rightarrow> iptr \<Rightarrow> dptr \<Rightarrow> iptr \<Rightarrow> kstate" where
  "simple_unlink s dir entry inode =
     (let now = current_time s;
          s1 = upd_inode inode (\<lambda>i. i\<lparr>i_ctime := now\<rparr>) s;
          s2 = upd_inode dir (\<lambda>i. i\<lparr>i_ctime := now, i_mtime := now\<rparr>) s1;
          s3 = upd_inode inode drop_nlink s2
      in dput entry s3)"

definition simple_rmdir :: "kstate \<Rightarrow> iptr \<Rightarrow> dptr \<Rightarrow> fault + (int \<times> kstate)" where
  "simple_rmdir s dir entry =
     (if \<not> simple_empty s entry then Inr (- ENOTEMPTY, s)
      else (case dentry_at s entry of
              None \<Rightarrow> Inl Oops
            | Some de \<Rightarrow>
                (case d_inode de of
                   None \<Rightarrow> Inl Oops
                 | Some inode \<Rightarrow>
                     let s1 = upd_inode inode drop_nlink s;
                         s2 = simple_unlink s1 dir entry inode
                     in Inr (0, upd_inode dir drop_nlink s2))))"

section \<open>Mount configuration\<close>

datatype ctx_ops = No_context_ops | Tagfs_context_ops

record fs_context =
  fc_s_fs_info :: "fsiptr option"
  fc_source :: "string option"
  fc_ops :: ctx_ops
  fc_root :: "dptr option"

datatype fs_value_type = Fs_value_is_undefined | Fs_value_is_flag | Fs_value_is_string
  | Fs_value_is_blob | Fs_value_is_filename | Fs_value_is_file

record fs_parameter =
  p_key :: string
  p_type :: fs_value_type
  p_string :: string

datatype fs_param_type = Fs_param_is_u32

record fs_parameter_spec =
  sp_name :: string
  sp_type :: fs_param_type
  sp_opt :: int
  sp_data :: nat

text \<open>\<^verbatim>\<open>enum tagfs_param { Opt_mode, };\<close>\<close>

definition Opt_mode :: int where "Opt_mode = 0"

text \<open>\<^verbatim>\<open>fsparam_u32oct("mode", Opt_mode)\<close>: an unsigned 32-bit number read in base 8.\<close>

definition tagfs_fs_parameters :: "fs_parameter_spec list" where
  "tagfs_fs_parameters =
     [\<lparr>sp_name = ''mode'', sp_type = Fs_param_is_u32, sp_opt = Opt_mode, sp_data = 8\<rparr>]"

subsection \<open>The parser helpers\<close>

text \<open>
  Modelled from the spec: \<^verbatim>\<open>kstrtouint\<close> (lib/kstrtox.c) is not part of the file. The
  specification says that the creation-mode value is a "non-negative integer". The helper,
  for an explicit base up to 10 as the table asks for, accepts an optional \<^verbatim>\<open>+\<close>, at least
  one digit of the base, an optional final newline and nothing else, and a value that fits
  32 bits.
\<close>

definition digit_value :: "nat \<Rightarrow> char \<Rightarrow> nat option" where
  "digit_value base c =
     (let n = (of_char c :: nat) in
      if 48 \<le> n \<and> n \<le> 57 \<and> n - 48 < base then Some (n - 48) else None)"

fun parse_integer :: "nat \<Rightarrow> string \<Rightarrow> nat \<Rightarrow> nat \<Rightarrow> nat \<times> nat \<times> string" where
  "parse_integer base [] res rv = (res, rv, [])"
| "parse_integer base (c # cs) res rv =
     (case digit_value base c of
        None \<Rightarrow> (res, rv, c # cs)
      | Some v \<Rightarrow> parse_integer base cs (res * base + v) (Suc rv))"

definition kstrtouint :: "string \<Rightarrow> nat \<Rightarrow> 32 word option" where
  "kstrtouint str base =
     (let str = (case str of c # cs \<Rightarrow> if c = CHR ''+'' then cs else str | [] \<Rightarrow> str) in
      case parse_integer base str 0 0 of
        (res, rv, rest) \<Rightarrow>
          let rest = (case rest of c # cs \<Rightarrow> if c = CHR 0x0A then cs else rest | [] \<Rightarrow> rest)
          in if rv = 0 \<or> rest \<noteq> [] \<or> 2 ^ 32 \<le> res then None else Some (of_nat res))"

text \<open>
  Modelled from the spec: \<^verbatim>\<open>fs_parse\<close> (fs/fs_parser.c) is not part of the file. The
  specification says that "this core recognizes only a creation-mode key". On a table
  without flag parameters the helper answers \<^verbatim>\<open>-ENOPARAM\<close> for a key that the table does
  not name, \<^verbatim>\<open>-EINVAL\<close> for a named key whose value is not a string holding a number of
  the base, and otherwise the option number and the number. The second component is
  \<^verbatim>\<open>result.uint_32\<close>.
\<close>

definition fs_param_is_u32 :: "fs_parameter_spec \<Rightarrow> fs_parameter \<Rightarrow> 32 word option" where
  "fs_param_is_u32 p param =
     (if p_type param \<noteq> Fs_value_is_string then None
      else kstrtouint (p_string param) (sp_data p))"

definition fs_parse :: "fs_parameter_spec list \<Rightarrow> fs_parameter \<Rightarrow> int \<times> 32 word" where
  "fs_parse desc param =
     (case find (\<lambda>p. sp_name p = p_key param) desc of
        None \<Rightarrow> (- ENOPARAM, 0)
      | Some p \<Rightarrow>
          (case fs_param_is_u32 p param of
             None \<Rightarrow> (- EINVAL, 0)
           | Some v \<Rightarrow> (sp_opt p, v)))"

text \<open>
  \<^verbatim>\<open>vfs_parse_fs_param_source\<close> (fs/fs_context.c) is not part of the file, and the
  specification does not describe it. The model follows the kernel's function: any key
  but \<^verbatim>\<open>source\<close> is \<^verbatim>\<open>-ENOPARAM\<close>; a source that is not a string ("Non-string source") and a
  second source ("Multiple sources") are \<^verbatim>\<open>-EINVAL\<close>; a first string source is stored in the
  context.
\<close>

definition vfs_parse_fs_param_source :: "fs_context \<Rightarrow> fs_parameter \<Rightarrow> int \<times> fs_context" where
  "vfs_parse_fs_param_source fc param =
     (if p_key param \<noteq> ''source'' then (- ENOPARAM, fc)
      else if p_type param \<noteq> Fs_value_is_string then (- EINVAL, fc)
      else if fc_source fc \<noteq> None then (- EINVAL, fc)
      else (0, fc\<lparr>fc_source := Some (p_string param)\<rparr>))"

subsection \<open>tagfs\_parse\_param\<close>

definition tagfs_parse_param ::
  "kstate \<Rightarrow> fs_context \<Rightarrow> fs_parameter \<Rightarrow> fault + (int \<times> kstate \<times> fs_context)" where
  "tagfs_parse_param s fc param =
     (let fsi = fc_s_fs_info fc in
      case fs_parse tagfs_fs_parameters param of
        (opt, result) \<Rightarrow>
          if opt = - ENOPARAM
          then (case vfs_parse_fs_param_source fc param of
                  (opt, fc1) \<Rightarrow> if opt \<noteq> - ENOPARAM then Inr (opt, s, fc1) else Inr (0, s, fc1))
          else if opt < 0 then Inr (opt, s, fc)
          else if opt = Opt_mode
          then (case fsi of
                  None \<Rightarrow> Inl Oops
                | Some p \<Rightarrow>
                    (case fsinfo_at s p of
                       None \<Rightarrow> Inl Oops
                     | Some f \<Rightarrow>
                         Inr (0, upd_fsinfo p (\<lambda>f. f\<lparr>mount_opts := (mount_opts f)
                                  \<lparr>mo_mode := ucast (result AND ucast S_IALLUGO)\<rparr>\<rparr>) s, fc)))
          else Inr (0, s, fc))"

subsection \<open>tagfs\_show\_options\<close>

text \<open>
  Modelled from the spec: \<^verbatim>\<open>seq_printf\<close> (fs/seq_file.c) is not part of the file. The
  specification has "a textual fragment containing the creation-mode key". For
  \<^verbatim>\<open>seq_printf(m, ",mode=%o", mode)\<close> the text is appended to the buffer, the number in
  octal without a prefix.
\<close>

fun octal :: "nat \<Rightarrow> string" where
  "octal n = (if n < 8 then [''01234567'' ! n] else octal (n div 8) @ [''01234567'' ! (n mod 8)])"

declare octal.simps [simp del]

definition seq_printf_mode :: "string \<Rightarrow> umode_t \<Rightarrow> string" where
  "seq_printf_mode m mode = m @ '',mode='' @ octal (unat mode)"

definition tagfs_show_options :: "kstate \<Rightarrow> string \<Rightarrow> dptr \<Rightarrow> fault + (int \<times> string)" where
  "tagfs_show_options s m root =
     (case dentry_at s root of
        None \<Rightarrow> Inl Oops
      | Some de \<Rightarrow>
          (case super_at s (d_sb de) of
             None \<Rightarrow> Inl Oops
           | Some sb \<Rightarrow>
               (case s_fs_info sb of
                  None \<Rightarrow> Inl Oops
                | Some p \<Rightarrow>
                    (case fsinfo_at s p of
                       None \<Rightarrow> Inl Oops
                     | Some fsi \<Rightarrow>
                         Inr (0, if mo_mode (mount_opts fsi) \<noteq> TAGFS_DEFAULT_MODE
                                 then seq_printf_mode m (mo_mode (mount_opts fsi))
                                 else m)))))"

subsection \<open>tagfs\_init\_fs\_context and tagfs\_free\_fc\<close>

text \<open>
  \<^verbatim>\<open>kzalloc\<close> (include/linux/slab.h) is not part of the file: NULL, or a new record of zero
  bytes. \<open>ok\<close> is the allocator's answer.
\<close>

definition zeroed_fs_info :: tagfs_fs_info where
  "zeroed_fs_info = \<lparr>fsi_mutex = Mutex_zeroed, mount_opts = \<lparr>mo_mode = 0\<rparr>,
     bdevp = None, dax_devp = None\<rparr>"

definition kzalloc :: "bool \<Rightarrow> kstate \<Rightarrow> fsiptr option \<times> kstate" where
  "kzalloc ok s =
     (if ok then (case heap_alloc (fsinfo s) zeroed_fs_info of
                    (p, h) \<Rightarrow> (Some p, s\<lparr>fsinfo := h\<rparr>))
      else (None, s))"

text \<open>
  \<^verbatim>\<open>kfree\<close> (mm/slab_common.c) is not part of the file: nothing for NULL; a live record is
  given back, and the call is logged; a pointer to no live record (a second free) is a
  fault.
\<close>

definition kfree :: "fsiptr option \<Rightarrow> kstate \<Rightarrow> fault + kstate" where
  "kfree p s =
     (case p of
        None \<Rightarrow> Inr s
      | Some a \<Rightarrow>
          (case fsinfo_at s a of
             None \<Rightarrow> Inl BUG
           | Some f \<Rightarrow> Inr (s\<lparr>fsinfo := heap_free (fsinfo s) a, klog := klog s @ [Kfree a]\<rparr>)))"

definition tagfs_init_fs_context :: "bool \<Rightarrow> kstate \<Rightarrow> fs_context \<Rightarrow> int \<times> kstate \<times> fs_context" where
  "tagfs_init_fs_context ok s fc =
     (case kzalloc ok s of
        (None, s1) \<Rightarrow> (- ENOMEM, s1, fc)
      | (Some fsi, s1) \<Rightarrow>
          let s2 = upd_fsinfo fsi (\<lambda>f. f\<lparr>fsi_mutex := Mutex_ready\<rparr>) s1;
              s3 = upd_fsinfo fsi (\<lambda>f. f\<lparr>mount_opts := (mount_opts f)\<lparr>mo_mode := TAGFS_DEFAULT_MODE\<rparr>\<rparr>) s2
          in (0, s3, fc\<lparr>fc_s_fs_info := Some fsi, fc_ops := Tagfs_context_ops\<rparr>))"

definition tagfs_free_fc :: "kstate \<Rightarrow> fs_context \<Rightarrow> fault + kstate" where
  "tagfs_free_fc s fc = kfree (fc_s_fs_info fc) s"

section \<open>Volume lifecycle\<close>

text \<open>
  Constants of headers that are not part of the file (\<^verbatim>\<open>MAX_LFS_FILESIZE\<close>, \<^verbatim>\<open>PAGE_SHIFT\<close>
  with \<^verbatim>\<open>PAGE_SIZE = 1 << PAGE_SHIFT\<close>, \<^verbatim>\<open>TAGFS_MAGIC\<close>, \<^verbatim>\<open>tagfs_blkdev_mode\<close>) are
  arguments.
\<close>

record kconsts =
  MAX_LFS_FILESIZE :: nat
  PAGE_SHIFT :: nat
  TAGFS_MAGIC :: nat
  tagfs_blkdev_mode :: nat

text \<open>
  Modelled from the spec: \<^verbatim>\<open>d_make_root\<close> (fs/dcache.c) is not part of the file. The
  specification says that mount "fails OutOfResources if root allocation fails; otherwise
  returns a Volume exposing the root". The helper returns NULL for NULL; otherwise a new
  dentry bound to the inode, or, when no dentry can be allocated, it puts the inode and
  returns NULL. \<open>ok\<close> is the answer of the dentry allocator.
\<close>

definition d_alloc_anon :: "kstate \<Rightarrow> sbptr \<Rightarrow> dptr \<times> kstate" where
  "d_alloc_anon s sb =
     (case heap_alloc (dentries s) \<lparr>d_inode = None, d_count = 1, d_sb = sb, d_subdirs = []\<rparr> of
        (p, h) \<Rightarrow> (p, s\<lparr>dentries := h\<rparr>))"

definition d_make_root :: "bool \<Rightarrow> kstate \<Rightarrow> iptr option \<Rightarrow> fault + (dptr option \<times> kstate)" where
  "d_make_root ok s root_inode =
     (case root_inode of
        None \<Rightarrow> Inr (None, s)
      | Some inode \<Rightarrow>
          (case inode_at s inode of
             None \<Rightarrow> Inl Oops
           | Some i \<Rightarrow>
               if ok
               then (case d_alloc_anon s (i_sb i) of
                       (res, s1) \<Rightarrow>
                         (case d_instantiate s1 res inode of
                            Inl f \<Rightarrow> Inl f
                          | Inr s2 \<Rightarrow> Inr (Some res, s2)))
               else Inr (None, iput inode s)))"

text \<open>
  \<open>inode_ok\<close> and \<open>dentry_ok\<close> are the answers of the two allocators. The argument
  \<^verbatim>\<open>fc\<close> is not used by the C function and is left out.
\<close>

definition tagfs_fill_super ::
  "kconsts \<Rightarrow> bool \<Rightarrow> bool \<Rightarrow> kstate \<Rightarrow> sbptr \<Rightarrow> fault + (int \<times> kstate)" where
  "tagfs_fill_super k inode_ok dentry_ok s sb =
     (case super_at s sb of
        None \<Rightarrow> Inl Oops
      | Some sbr \<Rightarrow>
          (case s_fs_info sbr of
             None \<Rightarrow> Inl Oops
           | Some p \<Rightarrow>
               (case fsinfo_at s p of
                  None \<Rightarrow> Inl Oops
                | Some fsi \<Rightarrow>
                    let s1 = upd_super sb (\<lambda>b. b\<lparr>s_maxbytes := MAX_LFS_FILESIZE k,
                               s_blocksize := 2 ^ PAGE_SHIFT k, s_blocksize_bits := PAGE_SHIFT k,
                               s_magic := TAGFS_MAGIC k, s_op := Tagfs_ops, s_time_gran := 1\<rparr>) s
                    in (case tagfs_get_inode inode_ok s1 sb None
                               (S_IFDIR OR mo_mode (mount_opts fsi)) 0 of
                          (inode, s2) \<Rightarrow>
                            (case d_make_root dentry_ok s2 inode of
                               Inl f \<Rightarrow> Inl f
                             | Inr (root, s3) \<Rightarrow>
                                 let s4 = upd_super sb (\<lambda>b. b\<lparr>s_root := root\<rparr>) s3
                                 in if root = None then Inr (- ENOMEM, s4) else Inr (0, s4))))))"

subsection \<open>tagfs\_kill\_sb\<close>

text \<open>
  Modelled from the spec: \<^verbatim>\<open>mutex_destroy\<close>, \<^verbatim>\<open>blkdev_put\<close>, \<^verbatim>\<open>fs_put_dax\<close> and
  \<^verbatim>\<open>kill_litter_super\<close> are not part of the file. The specification speaks of "any
  externally attached resource (e.g., a backing block device or memory-mapped region
  referenced by the configuration)" that "must be released", and of the "generic remove
  everything under a directory collaborator". Each call is logged with its arguments;
  what the generic tear-down of the tree does to the nodes is outside the file.
\<close>

definition mutex_destroy :: "fsiptr \<Rightarrow> kstate \<Rightarrow> kstate" where
  "mutex_destroy fsi s =
     (upd_fsinfo fsi (\<lambda>f. f\<lparr>fsi_mutex := Mutex_destroyed\<rparr>) s)\<lparr>klog := klog s @ [Mutex_destroy fsi]\<rparr>"

definition blkdev_put :: "nat \<Rightarrow> nat \<Rightarrow> kstate \<Rightarrow> kstate" where
  "blkdev_put bdev mode s = s\<lparr>klog := klog s @ [Blkdev_put bdev mode]\<rparr>"

definition fs_put_dax :: "nat \<Rightarrow> fsiptr \<Rightarrow> kstate \<Rightarrow> kstate" where
  "fs_put_dax dax_dev holder s = s\<lparr>klog := klog s @ [Fs_put_dax dax_dev holder]\<rparr>"

definition kill_litter_super :: "sbptr \<Rightarrow> kstate \<Rightarrow> kstate" where
  "kill_litter_super sb s = s\<lparr>klog := klog s @ [Kill_litter_super sb]\<rparr>"

definition tagfs_kill_sb :: "kconsts \<Rightarrow> kstate \<Rightarrow> sbptr \<Rightarrow> fault + kstate" where
  "tagfs_kill_sb k s sb =
     (case super_at s sb of
        None \<Rightarrow> Inl Oops
      | Some sbr \<Rightarrow>
          (case s_fs_info sbr of
             None \<Rightarrow> Inl Oops
           | Some fsi \<Rightarrow>
               (case fsinfo_at s fsi of
                  None \<Rightarrow> Inl Oops
                | Some f \<Rightarrow>
                    let s1 = mutex_destroy fsi s;
                        s2 = (case bdevp f of
                                Some b \<Rightarrow> blkdev_put b (tagfs_blkdev_mode k) s1
                              | None \<Rightarrow> s1);
                        s3 = (case dax_devp f of
                                Some d \<Rightarrow> fs_put_dax d fsi s2
                              | None \<Rightarrow> s2)
                    in (case kfree (s_fs_info sbr) s3 of
                          Inl e \<Rightarrow> Inl e
                        | Inr s4 \<Rightarrow> Inr (kill_litter_super sb s4)))))"

subsection \<open>tagfs\_get\_tree\<close>

text \<open>
  Modelled from the spec: \<^verbatim>\<open>get_tree_nodev\<close> (fs/super.c) is not part of the file. The
  specification has "a client requests a new volume; Volume Lifecycle asks Node Store to
  create a root directory node using current Mount Configuration" and a Volume that holds
  "root node identity, the Mount Configuration". The helper (\<^verbatim>\<open>vfs_get_super\<close> over
  \<^verbatim>\<open>sget_fc\<close>) allocates a super block and hands the configuration record of the context
  over to it (\<^verbatim>\<open>s->s_fs_info = fc->s_fs_info; fc->s_fs_info = NULL;\<close>); it calls
  \<^verbatim>\<open>fill_super\<close>; when that fails it deactivates the super block, which calls the
  \<^verbatim>\<open>kill_sb\<close> of the file-system type (\<^verbatim>\<open>tagfs_fs_type.kill_sb = tagfs_kill_sb\<close>); when it
  succeeds the context takes a reference to the root (\<^verbatim>\<open>fc->root = dget(sb->s_root)\<close>).
  \<open>ok\<close> is the answer of the super-block allocator.
\<close>

definition sget_fc :: "bool \<Rightarrow> kstate \<Rightarrow> fs_context \<Rightarrow> sbptr option \<times> kstate \<times> fs_context" where
  "sget_fc ok s fc =
     (if ok
      then (case heap_alloc (supers s)
                  \<lparr>s_fs_info = fc_s_fs_info fc, s_root = None, s_maxbytes = 0, s_blocksize = 0,
                   s_blocksize_bits = 0, s_magic = 0, s_op = No_sops, s_time_gran = 1000000000\<rparr> of
              (sb, h) \<Rightarrow> (Some sb, s\<lparr>supers := h\<rparr>, fc\<lparr>fc_s_fs_info := None\<rparr>))
      else (None, s, fc))"

definition get_tree_nodev ::
  "bool \<Rightarrow> (kstate \<Rightarrow> sbptr \<Rightarrow> fault + kstate) \<Rightarrow> (kstate \<Rightarrow> sbptr \<Rightarrow> fault + (int \<times> kstate)) \<Rightarrow>
   kstate \<Rightarrow> fs_context \<Rightarrow> fault + (int \<times> kstate \<times> fs_context)" where
  "get_tree_nodev ok kill_sb fill_super s fc =
     (case sget_fc ok s fc of
        (None, s1, fc1) \<Rightarrow> Inr (- ENOMEM, s1, fc1)
      | (Some sb, s1, fc1) \<Rightarrow>
          (case fill_super s1 sb of
             Inl f \<Rightarrow> Inl f
           | Inr (err, s2) \<Rightarrow>
               if err \<noteq> 0
               then (case kill_sb s2 sb of
                       Inl f \<Rightarrow> Inl f
                     | Inr s3 \<Rightarrow> Inr (err, s3, fc1))
               else (case super_at s2 sb of
                       None \<Rightarrow> Inl Oops
                     | Some b \<Rightarrow>
                         (case s_root b of
                            None \<Rightarrow> Inr (0, s2, fc1\<lparr>fc_root := None\<rparr>)
                          | Some r \<Rightarrow> Inr (0, dget r s2, fc1\<lparr>fc_root := Some r\<rparr>)))))"

text \<open>
  \<^verbatim>\<open>return get_tree_nodev(fc, tagfs_fill_super);\<close> The three flags are the answers of the
  allocators of the super block, of the root inode and of the root dentry.
\<close>

definition tagfs_get_tree ::
  "kconsts \<Rightarrow> bool \<Rightarrow> bool \<Rightarrow> bool \<Rightarrow> kstate \<Rightarrow> fs_context \<Rightarrow> fault + (int \<times> kstate \<times> fs_context)" where
  "tagfs_get_tree k sb_ok inode_ok dentry_ok s fc =
     get_tree_nodev sb_ok (tagfs_kill_sb k) (tagfs_fill_super k inode_ok dentry_ok) s fc"

section \<open>The callers of the file\<close>

subsection \<open>The caller of the create operation\<close>

text \<open>
  Modelled from the spec: the caller of \<^verbatim>\<open>.create = tagfs_create\<close> (the VFS, fs/namei.c) is
  not part of the file. The specification says of \<open>create_regular(parent, name, mode)\<close> that
  it "fails NameExists if name already used", and of NameExists that "a create/link/mkdir
  targets a name already present in the parent; caller-visible, no side effect occurs
  (atomic check-then-insert)". A name is present when its dentry is bound to a node. The
  model follows \<^verbatim>\<open>vfs_create\<close> with \<^verbatim>\<open>may_create\<close>: \<^verbatim>\<open>-EEXIST\<close> for a dentry that is bound to
  a node (\<^verbatim>\<open>if (child->d_inode) return -EEXIST;\<close>); otherwise the mode is reduced to its
  permission bits, S\_IFREG is set (the umask is left out), and \<^verbatim>\<open>.create\<close> is called.
\<close>

definition create_regular ::
  "bool \<Rightarrow> kstate \<Rightarrow> iptr \<Rightarrow> dptr \<Rightarrow> umode_t \<Rightarrow> bool \<Rightarrow> fault + (int \<times> kstate)" where
  "create_regular ok s dir dentry mode excl =
     (case dentry_at s dentry of
        None \<Rightarrow> Inl Oops
      | Some de \<Rightarrow>
          if d_inode de \<noteq> None then Inr (- EEXIST, s)
          else tagfs_create ok s dir dentry ((mode AND S_IALLUGO) OR S_IFREG) excl)"

subsection \<open>The life of a volume\<close>

text \<open>
  Modelled from the spec: the code that drives the context operations of the file
  (\<^verbatim>\<open>tagfs_context_ops\<close>: \<^verbatim>\<open>.free\<close>, \<^verbatim>\<open>.parse_param\<close>, \<^verbatim>\<open>.get_tree\<close>) and \<^verbatim>\<open>.kill_sb\<close> is the
  VFS (fs/fs_context.c, fs/namespace.c, fs/super.c), not part of the file. The
  specification has the Volume "created on mount request; exists until unmount", a
  configuration that is "a sequence of key/value pairs", "a handle to any backing device
  the configuration references", and an unmount after which "the configuration record is
  released exactly once".

  \<^item> \<open>generic_parse_monolithic\<close> hands the options to \<^verbatim>\<open>.parse_param\<close> one by one and stops at
    the first error.
  \<^item> \<open>put_fs_context\<close> drops the context's reference to the root and calls \<^verbatim>\<open>.free\<close> when the
    context has its operations.
  \<^item> \<open>attach_devices\<close> stands for the code of other files that stores a block device and a
    DAX device in the configuration record of a mounted volume.
  \<^item> \<open>volume_lifecycle\<close> is one mount request from \<^verbatim>\<open>tagfs_init_fs_context\<close> on; when the
    mount succeeds, devices are attached and the volume is unmounted, which calls
    \<^verbatim>\<open>tagfs_kill_sb\<close>. It returns the result of the mount request.
\<close>

fun generic_parse_monolithic ::
  "kstate \<Rightarrow> fs_context \<Rightarrow> fs_parameter list \<Rightarrow> fault + (int \<times> kstate \<times> fs_context)" where
  "generic_parse_monolithic s fc [] = Inr (0, s, fc)"
| "generic_parse_monolithic s fc (param # params) =
     (case tagfs_parse_param s fc param of
        Inl f \<Rightarrow> Inl f
      | Inr (ret, s1, fc1) \<Rightarrow>
          if ret < 0 then Inr (ret, s1, fc1) else generic_parse_monolithic s1 fc1 params)"

definition put_fs_context :: "kstate \<Rightarrow> fs_context \<Rightarrow> fault + kstate" where
  "put_fs_context s fc =
     (let s1 = (case fc_root fc of Some r \<Rightarrow> dput r s | None \<Rightarrow> s)
      in if fc_ops fc = Tagfs_context_ops then tagfs_free_fc s1 fc else Inr s1)"

definition attach_devices :: "nat option \<Rightarrow> nat option \<Rightarrow> sbptr \<Rightarrow> kstate \<Rightarrow> kstate" where
  "attach_devices bdev dax_dev sb s =
     (case super_at s sb of
        None \<Rightarrow> s
      | Some b \<Rightarrow>
          (case s_fs_info b of
             None \<Rightarrow> s
           | Some p \<Rightarrow> upd_fsinfo p (\<lambda>f. f\<lparr>bdevp := bdev, dax_devp := dax_dev\<rparr>) s))"

definition blank_fc :: fs_context where
  "blank_fc = \<lparr>fc_s_fs_info = None, fc_source = None, fc_ops = No_context_ops, fc_root = None\<rparr>"

definition volume_lifecycle ::
  "kconsts \<Rightarrow> bool \<Rightarrow> bool \<Rightarrow> bool \<Rightarrow> bool \<Rightarrow> fs_parameter list \<Rightarrow> nat option \<Rightarrow> nat option \<Rightarrow>
   kstate \<Rightarrow> fault + (int \<times> kstate)" where
  "volume_lifecycle k fsi_ok sb_ok inode_ok dentry_ok params bdev dax_dev s =
     (case tagfs_init_fs_context fsi_ok s blank_fc of
        (ret, s1, fc1) \<Rightarrow>
          if ret \<noteq> 0
          then (case put_fs_context s1 fc1 of Inl f \<Rightarrow> Inl f | Inr s2 \<Rightarrow> Inr (ret, s2))
          else (case generic_parse_monolithic s1 fc1 params of
                  Inl f \<Rightarrow> Inl f
                | Inr (ret, s2, fc2) \<Rightarrow>
                    if ret < 0
                    then (case put_fs_context s2 fc2 of Inl f \<Rightarrow> Inl f | Inr s3 \<Rightarrow> Inr (ret, s3))
                    else (case tagfs_get_tree k sb_ok inode_ok dentry_ok s2 fc2 of
                            Inl f \<Rightarrow> Inl f
                          | Inr (ret, s3, fc3) \<Rightarrow>
                              (case put_fs_context s3 fc3 of
                                 Inl f \<Rightarrow> Inl f
                               | Inr s4 \<Rightarrow>
                                   if ret \<noteq> 0 then Inr (ret, s4)
                                   else (case fc_root fc3 of
                                           None \<Rightarrow> Inl Oops
                                         | Some r \<Rightarrow>
                                             (case dentry_at s4 r of
                                                None \<Rightarrow> Inl Oops
                                              | Some de \<Rightarrow>
                                                  (case tagfs_kill_sb k
                                                          (attach_devices bdev dax_dev (d_sb de) s4)
                                                          (d_sb de) of
                                                     Inl f \<Rightarrow> Inl f
                                                   | Inr s5 \<Rightarrow> Inr (0, s5))))))))"

text \<open>
  What the claims say of a log of release calls: a call puts a device; the record \<open>p\<close> is
  freed once; no device is put after the record \<open>p\<close> has been freed.
\<close>

fun is_put :: "event \<Rightarrow> bool" where
  "is_put (Blkdev_put b m) = True"
| "is_put (Fs_put_dax d h) = True"
| "is_put e = False"

definition freed_once :: "fsiptr \<Rightarrow> event list \<Rightarrow> bool" where
  "freed_once p log = (length (filter (\<lambda>e. e = Kfree p) log) = 1)"

definition puts_before_free :: "fsiptr \<Rightarrow> event list \<Rightarrow> bool" where
  "puts_before_free p log = (filter is_put (dropWhile (\<lambda>e. e \<noteq> Kfree p) log) = [])"

text \<open>
  A context between \<^verbatim>\<open>tagfs_init_fs_context\<close> and \<^verbatim>\<open>tagfs_get_tree\<close>: it has the operations
  of the file, no root, and it owns the live record \<open>p\<close>, to which no device is attached.
\<close>

definition owns_record :: "fsiptr \<Rightarrow> kstate \<Rightarrow> fs_context \<Rightarrow> bool" where
  "owns_record p s fc =
     (fc_s_fs_info fc = Some p \<and> fc_ops fc = Tagfs_context_ops \<and> fc_root fc = None \<and>
      (case fsinfo_at s p of None \<Rightarrow> False | Some f \<Rightarrow> bdevp f = None \<and> dax_devp f = None))"

section \<open>Example states\<close>

text \<open>
  A mounted volume with the default mode: the root directory (inode 0, dentry 0) and a
  negative dentry 1 for a name that is looked up in the root and not there yet.
\<close>

definition ex_consts :: kconsts where
  "ex_consts = \<lparr>MAX_LFS_FILESIZE = 2 ^ 63 - 1, PAGE_SHIFT = 12, TAGFS_MAGIC = 0,
     tagfs_blkdev_mode = 3\<rparr>"

definition ex_root :: inode where
  "ex_root = \<lparr>i_ino = 1, i_sb = 0, i_mode = S_IFDIR OR TAGFS_DEFAULT_MODE, i_uid = 0, i_gid = 0,
     i_nlink = 2, i_rdev = 0, i_atime = 100, i_mtime = 100, i_ctime = 100, i_count = 1,
     i_op = Tagfs_dir_inode_operations, i_fop = Simple_dir_operations, a_ops = Ram_aops,
     gfp_mask = GFP_HIGHUSER, unevictable = True, i_data = None\<rparr>"

definition ex_file :: inode where
  "ex_file = \<lparr>i_ino = 2, i_sb = 0, i_mode = S_IFREG OR 0x1A4, i_uid = 1000, i_gid = 1000,
     i_nlink = 1, i_rdev = 0, i_atime = 200, i_mtime = 200, i_ctime = 200, i_count = 1,
     i_op = Tagfs_file_inode_operations, i_fop = Tagfs_file_operations, a_ops = Ram_aops,
     gfp_mask = GFP_HIGHUSER, unevictable = True, i_data = None\<rparr>"

definition ex_fsi :: tagfs_fs_info where
  "ex_fsi = \<lparr>fsi_mutex = Mutex_ready, mount_opts = \<lparr>mo_mode = TAGFS_DEFAULT_MODE\<rparr>,
     bdevp = None, dax_devp = None\<rparr>"

definition ex_super :: super_block where
  "ex_super = \<lparr>s_fs_info = Some 0, s_root = Some 0, s_maxbytes = 2 ^ 63 - 1, s_blocksize = 4096,
     s_blocksize_bits = 12, s_magic = 0, s_op = Tagfs_ops, s_time_gran = 1\<rparr>"

definition ex_state :: kstate where
  "ex_state = \<lparr>inodes = [Some ex_root],
     dentries = [Some \<lparr>d_inode = Some 0, d_count = 1, d_sb = 0, d_subdirs = [1]\<rparr>,
                 Some \<lparr>d_inode = None, d_count = 1, d_sb = 0, d_subdirs = []\<rparr>],
     supers = [Some ex_super], fsinfo = [Some ex_fsi],
     last_ino = 1, clock = 1000, fsuid = 1000, fsgid = 1000, klog = []\<rparr>"

text \<open>The same volume after a regular file was created under the name of dentry 1.\<close>

definition ex_present :: kstate where
  "ex_present = ex_state\<lparr>inodes := [Some ex_root, Some ex_file],
     dentries := [Some \<lparr>d_inode = Some 0, d_count = 1, d_sb = 0, d_subdirs = [1]\<rparr>,
                  Some \<lparr>d_inode = Some 1, d_count = 2, d_sb = 0, d_subdirs = []\<rparr>],
     last_ino := 2\<rparr>"

text \<open>The same volume with a block device and a DAX device attached to its configuration.\<close>

definition ex_devs :: kstate where
  "ex_devs = ex_state\<lparr>fsinfo := [Some (ex_fsi\<lparr>bdevp := Some 7, dax_devp := Some 9\<rparr>)]\<rparr>"

text \<open>A super block that is not filled yet, with the mode 0750 configured.\<close>

definition ex_unfilled :: kstate where
  "ex_unfilled = \<lparr>inodes = [], dentries = [],
     supers = [Some \<lparr>s_fs_info = Some 0, s_root = None, s_maxbytes = 0, s_blocksize = 0,
                      s_blocksize_bits = 0, s_magic = 0, s_op = No_sops, s_time_gran = 1000000000\<rparr>],
     fsinfo = [Some (ex_fsi\<lparr>mount_opts := \<lparr>mo_mode = 0x1E8\<rparr>\<rparr>)],
     last_ino = 0, clock = 1000, fsuid = 0, fsgid = 0, klog = []\<rparr>"

text \<open>The mounted volume with the mode 0750 configured.\<close>

definition ex_state_750 :: kstate where
  "ex_state_750 = ex_state\<lparr>fsinfo := [Some (ex_fsi\<lparr>mount_opts := \<lparr>mo_mode = 0x1E8\<rparr>\<rparr>)]\<rparr>"

text \<open>
  A context during option parsing: its configuration record is record 0, and the source
  of the mount (the device name of the mount call) is already set.
\<close>

definition ex_fc :: fs_context where
  "ex_fc = \<lparr>fc_s_fs_info = Some 0, fc_source = Some ''none'', fc_ops = Tagfs_context_ops, fc_root = None\<rparr>"

definition ex_param_mode :: fs_parameter where
  "ex_param_mode = \<lparr>p_key = ''mode'', p_type = Fs_value_is_string, p_string = ''750''\<rparr>"

definition ex_param_size :: fs_parameter where
  "ex_param_size = \<lparr>p_key = ''size'', p_type = Fs_value_is_string, p_string = ''1G''\<rparr>"

definition ex_param_source :: fs_parameter where
  "ex_param_source = \<lparr>p_key = ''source'', p_type = Fs_value_is_string, p_string = ''other''\<rparr>"

section \<open>Facts about heaps\<close>

lemma heap_at_alloc:
  "heap_at (snd (heap_alloc h v)) p = (if p = fst (heap_alloc h v) then Some v else heap_at h p)"
  by (simp add: heap_at_def heap_alloc_def nth_append)

lemma heap_at_fresh: "heap_at h (fst (heap_alloc h v)) = None"
  by (simp add: heap_at_def heap_alloc_def)

lemma heap_at_upd:
  "heap_at (heap_upd h p f) q = (if q = p then map_option f (heap_at h p) else heap_at h q)"
  by (auto simp: heap_at_def heap_upd_def split: option.splits)

lemma heap_at_free:
  "heap_at (heap_free h p) q = (if q = p then None else heap_at h q)"
  by (auto simp: heap_at_def heap_free_def)

lemma heap_at_append_None: "heap_at (h @ [None]) p = heap_at h p"
  by (simp add: heap_at_def nth_append less_Suc_eq)

section \<open>Facts about the state\<close>

lemma inode_at_upd_inode:
  "inode_at (upd_inode p f s) q = (if q = p then map_option f (inode_at s p) else inode_at s q)"
  by (simp add: inode_at_def upd_inode_def heap_at_upd)

lemma kind_sgid: "(m OR S_ISGID) AND S_IFMT = m AND S_IFMT"
  by (simp add: S_ISGID_def S_IFMT_def bit.conj_disj_distrib2)

section \<open>Node allocation\<close>

lemma tagfs_get_inode_fail: "tagfs_get_inode False s sb dir mode dev = (None, s)"
  by (simp add: tagfs_get_inode_def new_inode_def)

lemma get_next_ino_frame:
  "inodes (snd (get_next_ino s)) = inodes s" "dentries (snd (get_next_ino s)) = dentries s"
  "supers (snd (get_next_ino s)) = supers s" "fsinfo (snd (get_next_ino s)) = fsinfo s"
  "clock (snd (get_next_ino s)) = clock s" "fsuid (snd (get_next_ino s)) = fsuid s"
  "fsgid (snd (get_next_ino s)) = fsgid s" "klog (snd (get_next_ino s)) = klog s"
  by (simp_all add: get_next_ino_def Let_def)

lemma tagfs_get_inode_ok:
  "tagfs_get_inode True s sb dir mode dev =
     (Some (length (inodes s)),
      upd_inode (length (inodes s))
        (tagfs_init_inode (alloc_state s sb) (fst (get_next_ino s)) dir mode dev)
        (alloc_state s sb))"
  by (simp add: tagfs_get_inode_def new_inode_def heap_alloc_def get_next_ino_def Let_def
        split: prod.splits)

lemma tagfs_get_inode_Some:
  "tagfs_get_inode ok s sb dir mode dev = (Some inode, s') \<Longrightarrow> ok \<and> inode = length (inodes s)"
  by (cases ok) (auto simp: tagfs_get_inode_fail tagfs_get_inode_ok)

lemma init_inode_kind:
  "i_mode (tagfs_init_inode s ino dir mode dev i) AND S_IFMT = mode AND S_IFMT"
  by (auto simp: tagfs_init_inode_def inode_init_owner_def init_special_inode_def inc_nlink_def
        Let_def kind_sgid split: option.splits)

lemma init_inode_times:
  "i_atime (tagfs_init_inode s ino dir mode dev i) = current_time s \<and>
   i_mtime (tagfs_init_inode s ino dir mode dev i) = current_time s \<and>
   i_ctime (tagfs_init_inode s ino dir mode dev i) = current_time s"
  by (auto simp: tagfs_init_inode_def inode_init_owner_def init_special_inode_def inc_nlink_def
        Let_def split: option.splits)

lemma init_inode_nlink:
  "i_nlink (tagfs_init_inode s ino dir mode dev i) =
     (if mode AND S_IFMT = S_IFDIR then i_nlink i + 1 else i_nlink i)"
  by (auto simp: tagfs_init_inode_def inode_init_owner_def init_special_inode_def inc_nlink_def
        Let_def S_IFDIR_def S_IFREG_def split: option.splits)

lemma inode_at_alloc_state:
  "inode_at (alloc_state s sb) q =
     (if q = length (inodes s) then Some (blank_inode sb) else inode_at s q)"
  by (simp add: inode_at_def heap_at_def get_next_ino_frame nth_append)

lemma current_time_alloc_state: "current_time (alloc_state s sb) = current_time s"
  by (simp add: current_time_def get_next_ino_frame)

lemma inode_at_length: "inode_at s (length (inodes s)) = None"
  by (simp add: inode_at_def heap_at_def)

text \<open>
  C2. Every successful call of \<^verbatim>\<open>tagfs_get_inode\<close> returns a new inode of the kind asked
  for in \<open>mode\<close>; a directory has link count 2, a regular file and a symbolic link have
  link count 1, and the three time stamps are the current time.
\<close>

theorem tagfs_get_inode_links_and_times:
  assumes "tagfs_get_inode ok s sb dir mode dev = (Some inode, s')"
  shows "\<exists>i. inode_at s inode = None \<and> inode_at s' inode = Some i \<and>
           i_mode i AND S_IFMT = mode AND S_IFMT \<and>
           (i_mode i AND S_IFMT = S_IFDIR \<longrightarrow> i_nlink i = 2) \<and>
           (i_mode i AND S_IFMT = S_IFREG \<or> i_mode i AND S_IFMT = S_IFLNK \<longrightarrow> i_nlink i = 1) \<and>
           i_atime i = current_time s \<and> i_mtime i = current_time s \<and> i_ctime i = current_time s"
proof -
  from assms have ok: ok and p: "inode = length (inodes s)"
    using tagfs_get_inode_Some by blast+
  let ?i = "tagfs_init_inode (alloc_state s sb) (fst (get_next_ino s)) dir mode dev (blank_inode sb)"
  have s': "s' = upd_inode inode
      (tagfs_init_inode (alloc_state s sb) (fst (get_next_ino s)) dir mode dev) (alloc_state s sb)"
    using assms ok by (simp add: tagfs_get_inode_ok p)
  have at': "inode_at s' inode = Some ?i"
    by (simp add: s' inode_at_upd_inode inode_at_alloc_state p)
  have fresh: "inode_at s inode = None"
    by (simp add: p inode_at_length)
  have nl: "i_nlink (blank_inode sb) = 1"
    by (simp add: blank_inode_def)
  have dl: "S_IFDIR \<noteq> S_IFREG" "S_IFDIR \<noteq> S_IFLNK"
    by (simp_all add: S_IFDIR_def S_IFREG_def S_IFLNK_def)
  show ?thesis
    using fresh at' dl
    by (simp add: init_inode_kind init_inode_times init_inode_nlink current_time_alloc_state nl)
qed

theorem tagfs_get_inode_links_and_times_witness:
  "fst (tagfs_get_inode True ex_state 0 (Some ex_root) (S_IFDIR OR 0x1ED) 0) = Some 1 \<and>
   map_option i_nlink
     (inode_at (snd (tagfs_get_inode True ex_state 0 (Some ex_root) (S_IFDIR OR 0x1ED) 0)) 1) = Some 2 \<and>
   map_option i_mtime
     (inode_at (snd (tagfs_get_inode True ex_state 0 (Some ex_root) (S_IFDIR OR 0x1ED) 0)) 1) = Some 1000 \<and>
   fst (tagfs_get_inode True ex_state 0 (Some ex_root) (S_IFREG OR 0x1A4) 0) = Some 1 \<and>
   map_option i_nlink
     (inode_at (snd (tagfs_get_inode True ex_state 0 (Some ex_root) (S_IFREG OR 0x1A4) 0)) 1) = Some 1 \<and>
   map_option i_atime
     (inode_at (snd (tagfs_get_inode True ex_state 0 (Some ex_root) (S_IFREG OR 0x1A4) 0)) 1) = Some 1000"
proof -
  have len: "length (inodes ex_state) = 1" and ct: "current_time ex_state = 1000"
    by (simp_all add: ex_state_def current_time_def)
  have kd: "(S_IFDIR OR 0x1ED) AND S_IFMT = S_IFDIR" and kr: "(S_IFREG OR 0x1A4) AND S_IFMT = S_IFREG"
    by (simp_all add: S_IFDIR_def S_IFREG_def S_IFMT_def)
  have d: "tagfs_get_inode True ex_state 0 (Some ex_root) (S_IFDIR OR 0x1ED) 0 =
      (Some 1, snd (tagfs_get_inode True ex_state 0 (Some ex_root) (S_IFDIR OR 0x1ED) 0))"
    by (simp add: tagfs_get_inode_ok len)
  have r: "tagfs_get_inode True ex_state 0 (Some ex_root) (S_IFREG OR 0x1A4) 0 =
      (Some 1, snd (tagfs_get_inode True ex_state 0 (Some ex_root) (S_IFREG OR 0x1A4) 0))"
    by (simp add: tagfs_get_inode_ok len)
  from tagfs_get_inode_links_and_times [OF d] tagfs_get_inode_links_and_times [OF r]
  show ?thesis
    by (auto simp: kd kr ct tagfs_get_inode_ok len)
qed


section \<open>Directory operations\<close>

lemma dentry_at_upd_inode: "dentry_at (upd_inode p f s) q = dentry_at s q"
  by (simp add: dentry_at_def upd_inode_def)

lemma inode_at_upd_dentry: "inode_at (upd_dentry p f s) q = inode_at s q"
  by (simp add: inode_at_def upd_dentry_def)

lemma dentry_at_upd_dentry:
  "dentry_at (upd_dentry p f s) q = (if q = p then map_option f (dentry_at s p) else dentry_at s q)"
  by (simp add: dentry_at_def upd_dentry_def heap_at_upd)

lemma dentry_at_alloc_state: "dentry_at (alloc_state s sb) q = dentry_at s q"
  by (simp add: dentry_at_def get_next_ino_frame)

lemma current_time_upd:
  "current_time (upd_inode p f s) = current_time s"
  "current_time (upd_dentry p g s) = current_time s"
  by (simp_all add: current_time_def upd_inode_def upd_dentry_def)

lemmas frame = inode_at_upd_inode dentry_at_upd_inode inode_at_upd_dentry dentry_at_upd_dentry
  inode_at_alloc_state dentry_at_alloc_state current_time_upd current_time_alloc_state

lemma tagfs_mknod_fail:
  "inode_at s dir = Some d \<Longrightarrow> tagfs_mknod False s dir dentry mode dev = Inr (- ENOSPC, s)"
  by (simp add: tagfs_mknod_def tagfs_get_inode_fail)

lemma tagfs_mknod_ok:
  assumes d: "inode_at s dir = Some d" and de: "dentry_at s dentry = Some de"
    and neg: "d_inode de = None"
  shows "\<exists>s1. tagfs_mknod True s dir dentry mode dev = Inr (0, s1) \<and>
     inode_at s1 dir = Some (d\<lparr>i_mtime := current_time s, i_ctime := current_time s\<rparr>) \<and>
     inode_at s1 (length (inodes s)) =
       Some (tagfs_init_inode (alloc_state s (i_sb d)) (fst (get_next_ino s)) (Some d) mode dev
               (blank_inode (i_sb d))) \<and>
     dentry_at s1 dentry = Some (de\<lparr>d_inode := Some (length (inodes s)), d_count := d_count de + 1\<rparr>)"
proof -
  have ne: "dir \<noteq> length (inodes s)"
    using d by (auto simp: inode_at_length)
  show ?thesis
    using ne by (simp add: tagfs_mknod_def d de neg tagfs_get_inode_ok d_instantiate_def dget_def
          Let_def frame)
qed

lemma tagfs_mknod_positive:
  assumes d: "inode_at s dir = Some d" and de: "dentry_at s dentry = Some de"
    and pos: "d_inode de \<noteq> None"
  shows "tagfs_mknod True s dir dentry mode dev = Inl BUG"
  using pos by (simp add: tagfs_mknod_def d de tagfs_get_inode_ok d_instantiate_def frame)

lemma tagfs_mknod_never_EEXIST: "tagfs_mknod ok s dir dentry mode dev \<noteq> Inr (- EEXIST, s1)"
  by (cases ok)
    (auto simp: tagfs_mknod_def tagfs_get_inode_fail tagfs_get_inode_ok ENOSPC_def EEXIST_def Let_def
      split: option.splits sum.splits)

lemma init_inode_count: "i_count (tagfs_init_inode s ino dir mode dev i) = i_count i"
  by (auto simp: tagfs_init_inode_def inode_init_owner_def init_special_inode_def inc_nlink_def
        Let_def split: option.splits)

lemma init_inode_data: "i_data (tagfs_init_inode s ino dir mode dev i) = i_data i"
  by (auto simp: tagfs_init_inode_def inode_init_owner_def init_special_inode_def inc_nlink_def
        Let_def split: option.splits)

lemma kind_regular:
  "mode AND S_IFMT = 0 \<or> mode AND S_IFMT = S_IFREG \<Longrightarrow> (mode OR S_IFREG) AND S_IFMT = S_IFREG"
  by (auto simp: bit.conj_disj_distrib2) (simp_all add: S_IFREG_def S_IFMT_def)

lemma kind_symlink: "(S_IFLNK OR S_IRWXUGO) AND S_IFMT = S_IFLNK"
  by (simp add: S_IFLNK_def S_IRWXUGO_def S_IFMT_def)

subsection \<open>mkdir\<close>

lemma simple_rmdir_new:
  assumes d: "inode_at s1 dir = Some d1" and n: "inode_at s1 inode = Some i" and ne: "dir \<noteq> inode"
    and de: "dentry_at s1 entry = Some de1" and b: "d_inode de1 = Some inode"
    and e: "d_subdirs de1 = []"
  shows "\<exists>s2. simple_rmdir s1 dir entry = Inr (0, s2) \<and>
           map_option i_nlink (inode_at s2 dir) = Some (i_nlink d1 - 1)"
  using ne
  by (simp add: simple_rmdir_def simple_empty_def simple_unlink_def dput_def drop_nlink_def
        Let_def d n de b e frame)

text \<open>
  C3. \<^verbatim>\<open>tagfs_mkdir\<close> on a live parent and a negative dentry returns 0 exactly when the
  inode allocation succeeds. If it returns 0, the parent's link count has grown by one (in
  the unsigned 32-bit arithmetic of \<^verbatim>\<open>i_nlink\<close>), and \<^verbatim>\<open>simple_rmdir\<close> of the same entry right
  after it succeeds and leaves the parent with the link count it had before the mkdir. If
  it does not return 0, the state is unchanged.
\<close>

theorem tagfs_mkdir_parent_link_count:
  assumes d: "inode_at s dir = Some d" and de: "dentry_at s dentry = Some de"
    and neg: "d_inode de = None" and e: "d_subdirs de = []"
  shows "\<exists>retval s1. tagfs_mkdir ok s dir dentry mode = Inr (retval, s1) \<and>
           (retval = 0 \<longleftrightarrow> ok) \<and>
           (retval = 0 \<longrightarrow>
              map_option i_nlink (inode_at s1 dir) = Some (i_nlink d + 1) \<and>
              (\<exists>s2. simple_rmdir s1 dir dentry = Inr (0, s2) \<and>
                    map_option i_nlink (inode_at s2 dir) = Some (i_nlink d))) \<and>
           (retval \<noteq> 0 \<longrightarrow> s1 = s)"
proof (cases ok)
  case False
  then show ?thesis
    by (simp add: tagfs_mkdir_def tagfs_mknod_fail [OF d] ENOSPC_def)
next
  case True
  have ne: "dir \<noteq> length (inodes s)"
    using d by (auto simp: inode_at_length)
  from tagfs_mknod_ok [OF d de neg, of "mode OR S_IFDIR" 0]
  obtain s0 where m: "tagfs_mknod True s dir dentry (mode OR S_IFDIR) 0 = Inr (0, s0)"
    and d0: "inode_at s0 dir = Some (d\<lparr>i_mtime := current_time s, i_ctime := current_time s\<rparr>)"
    and n0: "\<exists>i. inode_at s0 (length (inodes s)) = Some i"
    and e0: "dentry_at s0 dentry =
               Some (de\<lparr>d_inode := Some (length (inodes s)), d_count := d_count de + 1\<rparr>)"
    by auto
  let ?s1 = "upd_inode dir inc_nlink s0"
  have r: "tagfs_mkdir True s dir dentry mode = Inr (0, ?s1)"
    by (simp add: tagfs_mkdir_def m)
  have d1: "inode_at ?s1 dir =
      Some (inc_nlink (d\<lparr>i_mtime := current_time s, i_ctime := current_time s\<rparr>))"
    by (simp add: frame d0)
  from n0 ne obtain i where n1: "inode_at ?s1 (length (inodes s)) = Some i"
    by (auto simp: frame)
  have e1: "dentry_at ?s1 dentry =
      Some (de\<lparr>d_inode := Some (length (inodes s)), d_count := d_count de + 1\<rparr>)"
    by (simp add: frame e0)
  from simple_rmdir_new [OF d1 n1 ne e1] e
  obtain s2 where "simple_rmdir ?s1 dir dentry = Inr (0, s2)"
    and "map_option i_nlink (inode_at s2 dir) =
           Some (i_nlink (inc_nlink (d\<lparr>i_mtime := current_time s, i_ctime := current_time s\<rparr>)) - 1)"
    by auto
  then show ?thesis
    using True r d1 by (auto simp: inc_nlink_def)
qed

theorem tagfs_mkdir_parent_link_count_witness:
  "inode_at ex_state 0 = Some ex_root \<and> i_nlink ex_root = 2 \<and>
   (\<exists>s1. tagfs_mkdir True ex_state 0 1 0x1ED = Inr (0, s1) \<and>
      map_option i_nlink (inode_at s1 0) = Some 3 \<and>
      (\<exists>s2. simple_rmdir s1 0 1 = Inr (0, s2) \<and> map_option i_nlink (inode_at s2 0) = Some 2)) \<and>
   tagfs_mkdir False ex_state 0 1 0x1ED = Inr (- ENOSPC, ex_state)"
proof -
  have d: "inode_at ex_state 0 = Some ex_root"
    by (simp add: ex_state_def inode_at_def heap_at_def)
  have de: "dentry_at ex_state 1 = Some \<lparr>d_inode = None, d_count = 1, d_sb = 0, d_subdirs = []\<rparr>"
    by (simp add: ex_state_def dentry_at_def heap_at_def)
  have n: "i_nlink ex_root = 2"
    by (simp add: ex_root_def)
  from tagfs_mkdir_parent_link_count [OF d de, of True "0x1ED"]
       tagfs_mkdir_parent_link_count [OF d de, of False "0x1ED"]
  show ?thesis
    using d n by (auto simp: tagfs_mkdir_def tagfs_mknod_fail [OF d])
qed

subsection \<open>create\<close>

text \<open>
  C10. The result of \<^verbatim>\<open>tagfs_create\<close>, state included, does not depend on the flag
  \<^verbatim>\<open>excl\<close>.
\<close>

theorem tagfs_create_ignores_excl:
  "tagfs_create ok s dir dentry mode excl = tagfs_create ok s dir dentry mode excl'"
  by (simp add: tagfs_create_def)

theorem tagfs_create_ignores_excl_witness:
  "tagfs_create True ex_state 0 1 0x1A4 True = tagfs_create True ex_state 0 1 0x1A4 False \<and>
   tagfs_create True ex_present 0 1 0x1A4 True = tagfs_create True ex_present 0 1 0x1A4 False"
  using tagfs_create_ignores_excl [of True ex_state 0 1 "0x1A4" True False]
    tagfs_create_ignores_excl [of True ex_present 0 1 "0x1A4" True False]
  by simp

lemma kind_regular_masked:
  "(((mode AND S_IALLUGO) OR S_IFREG) OR S_IFREG) AND S_IFMT = S_IFREG"
proof -
  have "(mode AND S_IALLUGO) AND S_IFMT = mode AND (S_IALLUGO AND S_IFMT)"
    by (simp add: and.assoc)
  also have "\<dots> = 0"
    by (simp add: S_IALLUGO_def S_IFMT_def)
  finally have "((mode AND S_IALLUGO) OR S_IFREG) AND S_IFMT = S_IFREG"
    by (simp add: kind_regular)
  then show ?thesis
    by (simp add: kind_regular)
qed

lemma tagfs_create_cases:
  assumes d: "inode_at s dir = Some d" and de: "dentry_at s dentry = Some de"
    and neg: "d_inode de = None" and k: "(mode OR S_IFREG) AND S_IFMT = S_IFREG"
  shows "\<exists>retval s1. tagfs_create ok s dir dentry mode excl = Inr (retval, s1) \<and>
           (retval = 0 \<longleftrightarrow> ok) \<and>
           (retval = 0 \<longrightarrow>
              (\<exists>inode i. inode_at s inode = None \<and> inode_at s1 inode = Some i \<and>
                 i_mode i AND S_IFMT = S_IFREG \<and> i_nlink i = 1 \<and>
                 map_option d_inode (dentry_at s1 dentry) = Some (Some inode))) \<and>
           (retval \<noteq> 0 \<longrightarrow> retval = - ENOSPC \<and> s1 = s)"
proof (cases ok)
  case False
  then show ?thesis
    by (simp add: tagfs_create_def tagfs_mknod_fail [OF d] ENOSPC_def)
next
  case True
  have rd: "S_IFREG \<noteq> S_IFDIR"
    by (simp add: S_IFREG_def S_IFDIR_def)
  from tagfs_mknod_ok [OF d de neg, of "mode OR S_IFREG" 0]
  obtain s1 where "tagfs_mknod True s dir dentry (mode OR S_IFREG) 0 = Inr (0, s1)"
    and "inode_at s1 (length (inodes s)) =
      Some (tagfs_init_inode (alloc_state s (i_sb d)) (fst (get_next_ino s)) (Some d)
              (mode OR S_IFREG) 0 (blank_inode (i_sb d)))"
    and "dentry_at s1 dentry =
      Some (de\<lparr>d_inode := Some (length (inodes s)), d_count := d_count de + 1\<rparr>)"
    by auto
  moreover have "i_mode (tagfs_init_inode (alloc_state s (i_sb d)) (fst (get_next_ino s)) (Some d)
              (mode OR S_IFREG) 0 (blank_inode (i_sb d))) AND S_IFMT = S_IFREG"
    by (simp add: init_inode_kind k)
  moreover have "i_nlink (tagfs_init_inode (alloc_state s (i_sb d)) (fst (get_next_ino s)) (Some d)
              (mode OR S_IFREG) 0 (blank_inode (i_sb d))) = 1"
    using k rd by (simp add: init_inode_nlink) (simp add: blank_inode_def)
  ultimately show ?thesis
    using True
    by (simp add: tagfs_create_def) (rule exI [of _ "length (inodes s)"], simp add: inode_at_length)
qed

text \<open>
  C4, as the code has it. A create request for a name that is present in the parent is
  answered by the caller with \<^verbatim>\<open>-EEXIST\<close> and changes nothing; \<^verbatim>\<open>tagfs_create\<close> itself never
  returns \<^verbatim>\<open>-EEXIST\<close>. For a name that is not present the request is \<^verbatim>\<open>tagfs_create\<close> on the
  negative dentry, which returns 0 exactly when the node allocation succeeds: then a new
  regular-file node with link count 1 exists and the dentry is bound to it; when the
  allocation fails it returns \<^verbatim>\<open>-ENOSPC\<close> and the state is unchanged.
\<close>

theorem tagfs_create_name_check_and_allocation:
  assumes d: "inode_at s dir = Some d" and de: "dentry_at s dentry = Some de"
  shows "(d_inode de \<noteq> None \<longrightarrow> create_regular ok s dir dentry mode excl = Inr (- EEXIST, s)) \<and>
         (d_inode de = None \<longrightarrow>
            create_regular ok s dir dentry mode excl =
              tagfs_create ok s dir dentry ((mode AND S_IALLUGO) OR S_IFREG) excl \<and>
            (\<exists>retval s1. tagfs_create ok s dir dentry ((mode AND S_IALLUGO) OR S_IFREG) excl = Inr (retval, s1) \<and>
               (retval = 0 \<longleftrightarrow> ok) \<and>
               (retval = 0 \<longrightarrow>
                  (\<exists>inode i. inode_at s inode = None \<and> inode_at s1 inode = Some i \<and>
                     i_mode i AND S_IFMT = S_IFREG \<and> i_nlink i = 1 \<and>
                     map_option d_inode (dentry_at s1 dentry) = Some (Some inode))) \<and>
               (retval \<noteq> 0 \<longrightarrow> retval = - ENOSPC \<and> s1 = s))) \<and>
         tagfs_create ok s dir dentry mode excl \<noteq> Inr (- EEXIST, s')"
proof (intro conjI impI)
  assume "d_inode de \<noteq> None"
  then show "create_regular ok s dir dentry mode excl = Inr (- EEXIST, s)"
    by (simp add: create_regular_def de)
next
  assume "d_inode de = None"
  then show "create_regular ok s dir dentry mode excl =
      tagfs_create ok s dir dentry ((mode AND S_IALLUGO) OR S_IFREG) excl"
    by (simp add: create_regular_def de)
next
  assume neg: "d_inode de = None"
  show "\<exists>retval s1. tagfs_create ok s dir dentry ((mode AND S_IALLUGO) OR S_IFREG) excl = Inr (retval, s1) \<and>
               (retval = 0 \<longleftrightarrow> ok) \<and>
               (retval = 0 \<longrightarrow>
                  (\<exists>inode i. inode_at s inode = None \<and> inode_at s1 inode = Some i \<and>
                     i_mode i AND S_IFMT = S_IFREG \<and> i_nlink i = 1 \<and>
                     map_option d_inode (dentry_at s1 dentry) = Some (Some inode))) \<and>
               (retval \<noteq> 0 \<longrightarrow> retval = - ENOSPC \<and> s1 = s)"
    by (rule tagfs_create_cases [OF d de neg kind_regular_masked])
next
  show "tagfs_create ok s dir dentry mode excl \<noteq> Inr (- EEXIST, s')"
    by (simp add: tagfs_create_def tagfs_mknod_never_EEXIST)
qed

theorem tagfs_create_name_check_and_allocation_witness:
  "inode_at ex_present 0 = Some ex_root \<and>
   dentry_at ex_present 1 = Some \<lparr>d_inode = Some 1, d_count = 2, d_sb = 0, d_subdirs = []\<rparr> \<and>
   create_regular True ex_present 0 1 0x1A4 False = Inr (- EEXIST, ex_present) \<and>
   inode_at ex_state 0 = Some ex_root \<and>
   dentry_at ex_state 1 = Some \<lparr>d_inode = None, d_count = 1, d_sb = 0, d_subdirs = []\<rparr> \<and>
   (\<exists>s1 inode i. create_regular True ex_state 0 1 0x1A4 False = Inr (0, s1) \<and>
      inode_at ex_state inode = None \<and> inode_at s1 inode = Some i \<and>
      i_mode i AND S_IFMT = S_IFREG \<and> i_nlink i = 1 \<and>
      map_option d_inode (dentry_at s1 1) = Some (Some inode)) \<and>
   create_regular False ex_state 0 1 0x1A4 False = Inr (- ENOSPC, ex_state)"
proof -
  have d: "inode_at ex_state 0 = Some ex_root" and d': "inode_at ex_present 0 = Some ex_root"
    by (simp_all add: ex_present_def ex_state_def inode_at_def heap_at_def)
  have de: "dentry_at ex_state 1 = Some \<lparr>d_inode = None, d_count = 1, d_sb = 0, d_subdirs = []\<rparr>"
    and de': "dentry_at ex_present 1 = Some \<lparr>d_inode = Some 1, d_count = 2, d_sb = 0, d_subdirs = []\<rparr>"
    by (simp_all add: ex_present_def ex_state_def dentry_at_def heap_at_def)
  from tagfs_create_name_check_and_allocation [OF d' de', of True "0x1A4" False]
    tagfs_create_name_check_and_allocation [OF d de, of True "0x1A4" False]
    tagfs_create_name_check_and_allocation [OF d de, of False "0x1A4" False]
  show ?thesis
    using d d' de de' by auto
qed

theorem tagfs_create_allocation_failure_counterexample:
  "inode_at ex_state 0 = Some ex_root \<and>
   dentry_at ex_state 1 = Some \<lparr>d_inode = None, d_count = 1, d_sb = 0, d_subdirs = []\<rparr> \<and>
   tagfs_create False ex_state 0 1 0x1A4 False = Inr (- ENOSPC, ex_state) \<and>
   create_regular False ex_state 0 1 0x1A4 False = Inr (- ENOSPC, ex_state) \<and>
   inode_at ex_state 1 = None \<and> - ENOSPC \<noteq> (0 :: int)"
proof -
  have d: "inode_at ex_state 0 = Some ex_root"
    by (simp add: ex_state_def inode_at_def heap_at_def)
  have n: "inode_at ex_state 1 = None"
    by (simp add: ex_state_def inode_at_def heap_at_def)
  have de: "dentry_at ex_state 1 = Some \<lparr>d_inode = None, d_count = 1, d_sb = 0, d_subdirs = []\<rparr>"
    by (simp add: ex_state_def dentry_at_def heap_at_def)
  show ?thesis
    using tagfs_mknod_fail [OF d] d n de
    by (simp add: create_regular_def tagfs_create_def ENOSPC_def)
qed

subsection \<open>symlink\<close>

lemma iput_last:
  "inode_at s p = Some i \<Longrightarrow> i_count i = 1 \<Longrightarrow> iput p s = s\<lparr>inodes := heap_free (inodes s) p\<rparr>"
  by (simp add: iput_def)

lemma inode_at_free:
  "inode_at (s\<lparr>inodes := heap_free (inodes s) p\<rparr>) q = (if q = p then None else inode_at s q)"
  by (simp add: inode_at_def heap_at_free)

lemma dentry_at_free: "dentry_at (s\<lparr>inodes := h\<rparr>) q = dentry_at s q"
  by (simp add: dentry_at_def)

lemma tagfs_symlink_store_fails:
  assumes d: "inode_at s dir = Some d" and rc: "rc \<noteq> 0"
  shows "\<exists>s1. tagfs_symlink True rc s dir dentry symname = Inr (rc, s1) \<and>
           (\<forall>q. inode_at s1 q = inode_at s q) \<and> (\<forall>q. dentry_at s1 q = dentry_at s q)"
proof -
  let ?p = "length (inodes s)"
  let ?s1 = "snd (tagfs_get_inode True s (i_sb d) (Some d) (S_IFLNK OR S_IRWXUGO) 0)"
  let ?i = "tagfs_init_inode (alloc_state s (i_sb d)) (fst (get_next_ino s)) (Some d)
              (S_IFLNK OR S_IRWXUGO) 0 (blank_inode (i_sb d))"
  have at: "inode_at ?s1 ?p = Some ?i"
    by (simp add: tagfs_get_inode_ok frame)
  have c: "i_count ?i = 1"
    by (simp add: init_inode_count) (simp add: blank_inode_def)
  have r: "tagfs_symlink True rc s dir dentry symname = Inr (rc, iput ?p ?s1)"
    using rc by (simp add: tagfs_symlink_def d tagfs_get_inode_ok page_symlink_def Let_def)
  have "inode_at (iput ?p ?s1) q = inode_at s q" for q
    by (simp add: iput_last [OF at c] inode_at_free)
      (simp add: tagfs_get_inode_ok frame inode_at_length)
  moreover have "dentry_at (iput ?p ?s1) q = dentry_at s q" for q
    by (simp add: iput_last [OF at c] dentry_at_free) (simp add: tagfs_get_inode_ok frame)
  ultimately show ?thesis
    using r by blast
qed

lemma tagfs_symlink_ok:
  assumes d: "inode_at s dir = Some d" and de: "dentry_at s dentry = Some de"
    and neg: "d_inode de = None"
  shows "\<exists>s1 i. tagfs_symlink True 0 s dir dentry symname = Inr (0, s1) \<and>
           inode_at s1 (length (inodes s)) = Some i \<and>
           i_mode i AND S_IFMT = S_IFLNK \<and> i_nlink i = 1 \<and> i_data i = Some symname \<and>
           map_option d_inode (dentry_at s1 dentry) = Some (Some (length (inodes s)))"
proof -
  have ne: "dir \<noteq> length (inodes s)"
    using d by (auto simp: inode_at_length)
  have ld: "S_IFLNK \<noteq> S_IFDIR"
    by (simp add: S_IFLNK_def S_IFDIR_def)
  have n: "i_nlink (blank_inode (i_sb d)) = 1" and dt: "i_data (blank_inode (i_sb d)) = None"
    by (simp_all add: blank_inode_def)
  show ?thesis
    using ne ld
    by (simp add: tagfs_symlink_def d de neg tagfs_get_inode_ok page_symlink_def strlen_def
          d_instantiate_def dget_def Let_def frame init_inode_kind init_inode_nlink kind_symlink n)
qed

text \<open>
  C1. \<^verbatim>\<open>tagfs_symlink\<close> on a live parent, when the node is allocated. If storing the target
  fails with \<open>rc\<close>, the call returns \<open>rc\<close>, and after it the same nodes are live as before it:
  the node it allocated has been put and is gone, and no dentry has changed. If storing
  the target succeeds and the dentry is not bound yet, the call returns 0 and the dentry
  is bound to the new node, a symbolic link that holds the target. When no node can be
  allocated, the call returns \<^verbatim>\<open>-ENOSPC\<close> and the state is unchanged.
\<close>

theorem tagfs_symlink_releases_on_store_failure:
  assumes d: "inode_at s dir = Some d"
  shows "(rc \<noteq> 0 \<longrightarrow>
            (\<exists>s1. tagfs_symlink True rc s dir dentry symname = Inr (rc, s1) \<and>
                  (\<forall>q. inode_at s1 q = inode_at s q) \<and> (\<forall>q. dentry_at s1 q = dentry_at s q))) \<and>
         (dentry_at s dentry = Some de \<and> d_inode de = None \<longrightarrow>
            (\<exists>s1 inode i. tagfs_symlink True 0 s dir dentry symname = Inr (0, s1) \<and>
                  inode_at s inode = None \<and> inode_at s1 inode = Some i \<and>
                  i_mode i AND S_IFMT = S_IFLNK \<and> i_data i = Some symname \<and>
                  map_option d_inode (dentry_at s1 dentry) = Some (Some inode))) \<and>
         tagfs_symlink False rc s dir dentry symname = Inr (- ENOSPC, s)"
proof (intro conjI impI)
  show "tagfs_symlink False rc s dir dentry symname = Inr (- ENOSPC, s)"
    by (simp add: tagfs_symlink_def d tagfs_get_inode_fail)
next
  assume "rc \<noteq> 0"
  then show "\<exists>s1. tagfs_symlink True rc s dir dentry symname = Inr (rc, s1) \<and>
                  (\<forall>q. inode_at s1 q = inode_at s q) \<and> (\<forall>q. dentry_at s1 q = dentry_at s q)"
    by (rule tagfs_symlink_store_fails [OF d])
next
  assume "dentry_at s dentry = Some de \<and> d_inode de = None"
  then have de: "dentry_at s dentry = Some de" and neg: "d_inode de = None"
    by simp_all
  from tagfs_symlink_ok [OF d de neg, of symname]
  obtain s1 i where "tagfs_symlink True 0 s dir dentry symname = Inr (0, s1)"
    and "inode_at s1 (length (inodes s)) = Some i"
    and "i_mode i AND S_IFMT = S_IFLNK" and "i_data i = Some symname"
    and "map_option d_inode (dentry_at s1 dentry) = Some (Some (length (inodes s)))"
    by blast
  then show "\<exists>s1 inode i. tagfs_symlink True 0 s dir dentry symname = Inr (0, s1) \<and>
                  inode_at s inode = None \<and> inode_at s1 inode = Some i \<and>
                  i_mode i AND S_IFMT = S_IFLNK \<and> i_data i = Some symname \<and>
                  map_option d_inode (dentry_at s1 dentry) = Some (Some inode)"
    using inode_at_length [of s] by blast
qed

theorem tagfs_symlink_releases_on_store_failure_witness:
  "inode_at ex_state 0 = Some ex_root \<and>
   dentry_at ex_state 1 = Some \<lparr>d_inode = None, d_count = 1, d_sb = 0, d_subdirs = []\<rparr> \<and>
   (\<exists>s1. tagfs_symlink True (- ENOMEM) ex_state 0 1 ''target'' = Inr (- ENOMEM, s1) \<and>
      inode_at s1 0 = Some ex_root \<and> inode_at s1 1 = None \<and> inode_at s1 2 = None \<and>
      map_option d_inode (dentry_at s1 1) = Some None) \<and>
   (\<exists>s1 inode i. tagfs_symlink True 0 ex_state 0 1 ''target'' = Inr (0, s1) \<and>
      inode_at ex_state inode = None \<and> inode_at s1 inode = Some i \<and>
      i_mode i AND S_IFMT = S_IFLNK \<and> i_data i = Some ''target'' \<and>
      map_option d_inode (dentry_at s1 1) = Some (Some inode)) \<and>
   tagfs_symlink False 0 ex_state 0 1 ''target'' = Inr (- ENOSPC, ex_state)"
proof -
  have d: "inode_at ex_state 0 = Some ex_root"
    by (simp add: ex_state_def inode_at_def heap_at_def)
  have de: "dentry_at ex_state 1 = Some \<lparr>d_inode = None, d_count = 1, d_sb = 0, d_subdirs = []\<rparr>"
    by (simp add: ex_state_def dentry_at_def heap_at_def)
  have n1: "inode_at ex_state 1 = None" and n2: "inode_at ex_state 2 = None"
    by (simp_all add: ex_state_def inode_at_def heap_at_def)
  have rc: "- ENOMEM \<noteq> 0"
    by (simp add: ENOMEM_def)
  from tagfs_symlink_releases_on_store_failure
      [OF d, of "- ENOMEM" 1 "''target''" "\<lparr>d_inode = None, d_count = 1, d_sb = 0, d_subdirs = []\<rparr>"]
    tagfs_symlink_releases_on_store_failure
      [OF d, of 0 1 "''target''" "\<lparr>d_inode = None, d_count = 1, d_sb = 0, d_subdirs = []\<rparr>"]
  show ?thesis
    using d de n1 n2 rc by auto
qed

section \<open>Mount options\<close>

lemma fsinfo_at_upd_fsinfo:
  "fsinfo_at (upd_fsinfo p f s) q = (if q = p then map_option f (fsinfo_at s p) else fsinfo_at s q)"
  by (simp add: fsinfo_at_def upd_fsinfo_def heap_at_upd)

lemma fs_parse_other:
  "p_key param \<noteq> ''mode'' \<Longrightarrow> fs_parse tagfs_fs_parameters param = (- ENOPARAM, 0)"
  by (auto simp: fs_parse_def tagfs_fs_parameters_def)

lemma fs_parse_mode:
  "p_key param = ''mode'' \<Longrightarrow>
   fs_parse tagfs_fs_parameters param =
     (if p_type param \<noteq> Fs_value_is_string then (- EINVAL, 0)
      else case kstrtouint (p_string param) 8 of
             None \<Rightarrow> (- EINVAL, 0) | Some v \<Rightarrow> (Opt_mode, v))"
  by (simp add: fs_parse_def tagfs_fs_parameters_def fs_param_is_u32_def split: option.splits)

lemma fs_parse_unrecognized_iff:
  "fst (fs_parse tagfs_fs_parameters param) = - ENOPARAM \<longleftrightarrow> p_key param \<noteq> ''mode''"
  by (cases "p_key param = ''mode''")
    (auto simp: fs_parse_other fs_parse_mode Opt_mode_def EINVAL_def ENOPARAM_def
      split: option.splits)

text \<open>
  C6, as the code has it. For a key that the table of the file system does not name:
  if the key is not \<^verbatim>\<open>source\<close>, \<^verbatim>\<open>tagfs_parse_param\<close> returns 0 and changes nothing; if the key
  is \<^verbatim>\<open>source\<close>, it returns what the generic source handler returns, 0 for a first source
  that is a string (which the context then holds) and \<^verbatim>\<open>-EINVAL\<close> otherwise. The state, and
  with it the configuration record, is unchanged in every case.
\<close>

theorem tagfs_parse_param_unrecognized_key:
  assumes "fst (fs_parse tagfs_fs_parameters param) = - ENOPARAM"
  shows "(p_key param \<noteq> ''source'' \<longrightarrow> tagfs_parse_param s fc param = Inr (0, s, fc)) \<and>
         (p_key param = ''source'' \<and> p_type param = Fs_value_is_string \<and> fc_source fc = None \<longrightarrow>
            tagfs_parse_param s fc param = Inr (0, s, fc\<lparr>fc_source := Some (p_string param)\<rparr>)) \<and>
         (p_key param = ''source'' \<and> (p_type param \<noteq> Fs_value_is_string \<or> fc_source fc \<noteq> None) \<longrightarrow>
            tagfs_parse_param s fc param = Inr (- EINVAL, s, fc))"
proof -
  from assms have k: "p_key param \<noteq> ''mode''"
    by (simp add: fs_parse_unrecognized_iff)
  show ?thesis
    by (auto simp: tagfs_parse_param_def fs_parse_other [OF k] vfs_parse_fs_param_source_def
          ENOPARAM_def EINVAL_def)
qed

theorem tagfs_parse_param_unrecognized_key_witness:
  "fst (fs_parse tagfs_fs_parameters ex_param_size) = - ENOPARAM \<and>
   tagfs_parse_param ex_state ex_fc ex_param_size = Inr (0, ex_state, ex_fc) \<and>
   fst (fs_parse tagfs_fs_parameters ex_param_source) = - ENOPARAM \<and>
   tagfs_parse_param ex_state (ex_fc\<lparr>fc_source := None\<rparr>) ex_param_source =
     Inr (0, ex_state, ex_fc\<lparr>fc_source := Some ''other''\<rparr>) \<and>
   tagfs_parse_param ex_state ex_fc ex_param_source = Inr (- EINVAL, ex_state, ex_fc)"
proof -
  have a: "fst (fs_parse tagfs_fs_parameters ex_param_size) = - ENOPARAM"
    by (simp add: fs_parse_unrecognized_iff ex_param_size_def)
  have b: "fst (fs_parse tagfs_fs_parameters ex_param_source) = - ENOPARAM"
    by (simp add: fs_parse_unrecognized_iff ex_param_source_def)
  from tagfs_parse_param_unrecognized_key [OF a, of ex_state ex_fc]
    tagfs_parse_param_unrecognized_key [OF b, of ex_state "ex_fc\<lparr>fc_source := None\<rparr>"]
    tagfs_parse_param_unrecognized_key [OF b, of ex_state ex_fc]
  show ?thesis
    using a b by (simp add: ex_param_size_def ex_param_source_def ex_fc_def)
qed

theorem tagfs_parse_param_second_source_counterexample:
  "fst (fs_parse tagfs_fs_parameters ex_param_source) = - ENOPARAM \<and>
   find (\<lambda>p. sp_name p = p_key ex_param_source) tagfs_fs_parameters = None \<and>
   tagfs_parse_param ex_state ex_fc ex_param_source = Inr (- EINVAL, ex_state, ex_fc) \<and>
   - EINVAL \<noteq> (0 :: int)"
  by (simp add: tagfs_parse_param_def fs_parse_def tagfs_fs_parameters_def
        vfs_parse_fs_param_source_def ex_param_source_def ex_fc_def ENOPARAM_def EINVAL_def)

lemma mask_S_IALLUGO:
  "(ucast (ucast ((v::32 word) AND ucast S_IALLUGO) :: umode_t) :: 32 word) = v AND ucast S_IALLUGO"
proof -
  have a: "(0xFFF :: 32 word) = mask 12"
    by (simp add: mask_eq_exp_minus_1)
  show ?thesis
    unfolding S_IALLUGO_def by (simp, unfold a take_bit_eq_mask [symmetric])
      (rule bit_word_eqI, auto simp add: bit_simps)
qed

lemma masked_within_S_IALLUGO:
  "(ucast ((v::32 word) AND ucast S_IALLUGO) :: umode_t) AND S_IALLUGO = ucast (v AND ucast S_IALLUGO)"
proof -
  have a: "(0xFFF :: 32 word) = mask 12" and b: "(0xFFF :: 16 word) = mask 12"
    by (simp_all add: mask_eq_exp_minus_1)
  show ?thesis
    unfolding S_IALLUGO_def by (simp, unfold a b take_bit_eq_mask [symmetric])
      (rule bit_word_eqI, auto simp add: bit_simps)
qed

text \<open>
  C7. For the key \<^verbatim>\<open>mode\<close> with a string value that reads as the octal number \<open>v\<close>,
  \<^verbatim>\<open>tagfs_parse_param\<close> returns 0; the configuration record then holds \<open>v AND S_IALLUGO\<close> as
  its mode (nothing is lost in the 16 bits of \<^verbatim>\<open>umode_t\<close>), its other fields are as before,
  and nothing else in the state or the context has changed.
\<close>

theorem tagfs_parse_param_mode_masked:
  assumes key: "p_key param = ''mode''" and ty: "p_type param = Fs_value_is_string"
    and v: "kstrtouint (p_string param) 8 = Some v"
    and fp: "fc_s_fs_info fc = Some p" and live: "fsinfo_at s p = Some fsi"
  shows "\<exists>s1 fsi1. tagfs_parse_param s fc param = Inr (0, s1, fc) \<and>
           fsinfo_at s1 p = Some fsi1 \<and>
           (ucast (mo_mode (mount_opts fsi1)) :: 32 word) = v AND ucast S_IALLUGO \<and>
           fsi1 = fsi\<lparr>mount_opts := mount_opts fsi1\<rparr> \<and>
           (\<forall>q. q \<noteq> p \<longrightarrow> fsinfo_at s1 q = fsinfo_at s q) \<and>
           s1 = s\<lparr>fsinfo := fsinfo s1\<rparr>"
proof -
  have r: "fs_parse tagfs_fs_parameters param = (Opt_mode, v)"
    by (simp add: fs_parse_mode [OF key] ty v)
  let ?s1 = "upd_fsinfo p (\<lambda>f. f\<lparr>mount_opts := (mount_opts f)
               \<lparr>mo_mode := ucast (v AND ucast S_IALLUGO)\<rparr>\<rparr>) s"
  have "tagfs_parse_param s fc param = Inr (0, ?s1, fc)"
    by (simp add: tagfs_parse_param_def r fp live Opt_mode_def ENOPARAM_def)
  moreover have "fsinfo_at ?s1 p =
      Some (fsi\<lparr>mount_opts := (mount_opts fsi)\<lparr>mo_mode := ucast (v AND ucast S_IALLUGO)\<rparr>\<rparr>)"
    by (simp add: fsinfo_at_upd_fsinfo live)
  moreover have "\<forall>q. q \<noteq> p \<longrightarrow> fsinfo_at ?s1 q = fsinfo_at s q"
    by (simp add: fsinfo_at_upd_fsinfo)
  moreover have "?s1 = s\<lparr>fsinfo := fsinfo ?s1\<rparr>"
    by (simp add: upd_fsinfo_def)
  ultimately show ?thesis
    by (simp add: mask_S_IALLUGO)
qed

theorem tagfs_parse_param_mode_masked_witness:
  "kstrtouint (p_string ex_param_mode) 8 = Some 0x1E8 \<and>
   fsinfo_at ex_state 0 = Some ex_fsi \<and>
   (\<exists>s1 fsi1. tagfs_parse_param ex_state ex_fc ex_param_mode = Inr (0, s1, ex_fc) \<and>
      fsinfo_at s1 0 = Some fsi1 \<and>
      (ucast (mo_mode (mount_opts fsi1)) :: 32 word) = 0x1E8 \<and>
      bdevp fsi1 = None \<and> dax_devp fsi1 = None \<and> fsi_mutex fsi1 = Mutex_ready)"
proof -
  have v: "kstrtouint (p_string ex_param_mode) 8 = Some 0x1E8"
    by (simp add: ex_param_mode_def kstrtouint_def digit_value_def)
  have live: "fsinfo_at ex_state 0 = Some ex_fsi"
    by (simp add: ex_state_def fsinfo_at_def heap_at_def)
  have m: "(0x1E8 :: 32 word) AND ucast S_IALLUGO = 0x1E8"
    by (simp add: S_IALLUGO_def)
  have e: "bdevp (ex_fsi\<lparr>mount_opts := x\<rparr>) = None \<and> dax_devp (ex_fsi\<lparr>mount_opts := x\<rparr>) = None \<and>
      fsi_mutex (ex_fsi\<lparr>mount_opts := x\<rparr>) = Mutex_ready" for x
    by (simp add: ex_fsi_def)
  from tagfs_parse_param_mode_masked [OF _ _ v _ live, of ex_fc]
  obtain s1 fsi1 where "tagfs_parse_param ex_state ex_fc ex_param_mode = Inr (0, s1, ex_fc)"
    and "fsinfo_at s1 0 = Some fsi1"
    and "(ucast (mo_mode (mount_opts fsi1)) :: 32 word) = 0x1E8 AND ucast S_IALLUGO"
    and "fsi1 = ex_fsi\<lparr>mount_opts := mount_opts fsi1\<rparr>"
    by (auto simp: ex_param_mode_def ex_fc_def)
  then show ?thesis
    using v live m e [of "mount_opts fsi1"] by auto
qed

subsection \<open>Redisplay\<close>

lemma tagfs_init_fs_context_mode:
  "tagfs_init_fs_context True s0 fc0 = (rc, s1, fc1) \<Longrightarrow>
   rc = 0 \<and> fc_s_fs_info fc1 = Some (length (fsinfo s0)) \<and>
   fsinfo_at s1 (length (fsinfo s0)) =
     Some (zeroed_fs_info\<lparr>fsi_mutex := Mutex_ready,
             mount_opts := \<lparr>mo_mode = TAGFS_DEFAULT_MODE\<rparr>\<rparr>)"
  by (auto simp: tagfs_init_fs_context_def kzalloc_def heap_alloc_def Let_def fsinfo_at_upd_fsinfo
        zeroed_fs_info_def)
    (simp add: fsinfo_at_def heap_at_def)

text \<open>
  C8. On a root dentry whose super block has a live configuration record,
  \<^verbatim>\<open>tagfs_show_options\<close> returns 0 and appends text to the buffer exactly when the stored mode
  is not \<^verbatim>\<open>TAGFS_DEFAULT_MODE\<close> (0755); the text is \<^verbatim>\<open>,mode=\<close> and the mode in octal. The record
  that \<^verbatim>\<open>tagfs_init_fs_context\<close> creates holds \<^verbatim>\<open>TAGFS_DEFAULT_MODE\<close>, so for a configuration
  that no option has touched nothing is appended.
\<close>

theorem tagfs_show_options_iff_not_default:
  assumes root: "dentry_at s root = Some de" and sb: "super_at s (d_sb de) = Some sbr"
    and fp: "s_fs_info sbr = Some p" and live: "fsinfo_at s p = Some fsi"
  shows "\<exists>out. tagfs_show_options s m root = Inr (0, m @ out) \<and>
           (out \<noteq> [] \<longleftrightarrow> mo_mode (mount_opts fsi) \<noteq> TAGFS_DEFAULT_MODE) \<and>
           (mo_mode (mount_opts fsi) \<noteq> TAGFS_DEFAULT_MODE \<longrightarrow>
              out = '',mode='' @ octal (unat (mo_mode (mount_opts fsi)))) \<and>
           (TAGFS_DEFAULT_MODE = 0x1ED) \<and>
           (\<forall>s0 fc0 rc s1 fc1. tagfs_init_fs_context True s0 fc0 = (rc, s1, fc1) \<and>
                 fc_s_fs_info fc1 = s_fs_info sbr \<and> fsinfo_at s1 p = Some fsi \<longrightarrow> out = [])"
proof (cases "mo_mode (mount_opts fsi) = TAGFS_DEFAULT_MODE")
  case True
  then have "tagfs_show_options s m root = Inr (0, m @ [])"
    by (simp add: tagfs_show_options_def root sb fp live)
  then show ?thesis
    using True by (auto simp: TAGFS_DEFAULT_MODE_def)
next
  case False
  then have "tagfs_show_options s m root =
      Inr (0, m @ '',mode='' @ octal (unat (mo_mode (mount_opts fsi))))"
    by (simp add: tagfs_show_options_def root sb fp live seq_printf_mode_def)
  moreover have "\<forall>s0 fc0 rc s1 fc1. tagfs_init_fs_context True s0 fc0 = (rc, s1, fc1) \<and>
      fc_s_fs_info fc1 = s_fs_info sbr \<and> fsinfo_at s1 p = Some fsi \<longrightarrow> False"
    using False fp by (auto dest!: tagfs_init_fs_context_mode)
  ultimately show ?thesis
    using False by (auto simp: TAGFS_DEFAULT_MODE_def)
qed

theorem tagfs_show_options_iff_not_default_witness:
  "dentry_at ex_state 0 = Some \<lparr>d_inode = Some 0, d_count = 1, d_sb = 0, d_subdirs = [1]\<rparr> \<and>
   super_at ex_state 0 = Some ex_super \<and> fsinfo_at ex_state 0 = Some ex_fsi \<and>
   tagfs_init_fs_context True (ex_state\<lparr>fsinfo := []\<rparr>)
       \<lparr>fc_s_fs_info = None, fc_source = None, fc_ops = No_context_ops, fc_root = None\<rparr> =
     (0, ex_state, \<lparr>fc_s_fs_info = Some 0, fc_source = None, fc_ops = Tagfs_context_ops, fc_root = None\<rparr>) \<and>
   tagfs_show_options ex_state ''rw,relatime'' 0 = Inr (0, ''rw,relatime'') \<and>
   tagfs_show_options ex_state_750 ''rw,relatime'' 0 = Inr (0, ''rw,relatime,mode=750'')"
proof -
  have i: "tagfs_init_fs_context True (ex_state\<lparr>fsinfo := []\<rparr>)
       \<lparr>fc_s_fs_info = None, fc_source = None, fc_ops = No_context_ops, fc_root = None\<rparr> =
     (0, ex_state, \<lparr>fc_s_fs_info = Some 0, fc_source = None, fc_ops = Tagfs_context_ops, fc_root = None\<rparr>)"
    by (simp add: tagfs_init_fs_context_def kzalloc_def heap_alloc_def upd_fsinfo_def heap_upd_def
          heap_at_def zeroed_fs_info_def ex_state_def ex_fsi_def Let_def)
  have root: "dentry_at ex_state 0 = Some \<lparr>d_inode = Some 0, d_count = 1, d_sb = 0, d_subdirs = [1]\<rparr>"
    and root': "dentry_at ex_state_750 0 = Some \<lparr>d_inode = Some 0, d_count = 1, d_sb = 0, d_subdirs = [1]\<rparr>"
    by (simp_all add: ex_state_750_def ex_state_def dentry_at_def heap_at_def)
  have sb: "super_at ex_state (d_sb \<lparr>d_inode = Some 0, d_count = 1, d_sb = 0, d_subdirs = [1]\<rparr>) = Some ex_super"
    and sb': "super_at ex_state_750 (d_sb \<lparr>d_inode = Some 0, d_count = 1, d_sb = 0, d_subdirs = [1]\<rparr>) = Some ex_super"
    by (simp_all add: ex_state_750_def ex_state_def super_at_def heap_at_def)
  have fp: "s_fs_info ex_super = Some 0"
    by (simp add: ex_super_def)
  have live: "fsinfo_at ex_state 0 = Some ex_fsi"
    and live': "fsinfo_at ex_state_750 0 = Some (ex_fsi\<lparr>mount_opts := \<lparr>mo_mode = 0x1E8\<rparr>\<rparr>)"
    by (simp_all add: ex_state_750_def ex_state_def fsinfo_at_def heap_at_def)
  have o: "octal 488 = ''750''"
    by code_simp
  have u: "unat (0x1E8 :: umode_t) = 488"
    by simp
  from tagfs_show_options_iff_not_default [OF root sb fp live, of "''rw,relatime''"]
    tagfs_show_options_iff_not_default [OF root' sb' fp live', of "''rw,relatime''"]
  show ?thesis
    using root sb live i by (auto simp: ex_fsi_def TAGFS_DEFAULT_MODE_def o u)
qed

section \<open>Mount and unmount\<close>

lemma super_at_upd_super:
  "super_at (upd_super p f s) q = (if q = p then map_option f (super_at s p) else super_at s q)"
  by (simp add: super_at_def upd_super_def heap_at_upd)

lemma upd_super_frame:
  "inode_at (upd_super p f s) q = inode_at s q" "dentry_at (upd_super p f s) q = dentry_at s q"
  "fsinfo_at (upd_super p f s) q = fsinfo_at s q" "inodes (upd_super p f s) = inodes s"
  "dentries (upd_super p f s) = dentries s" "current_time (upd_super p f s) = current_time s"
  by (simp_all add: inode_at_def dentry_at_def fsinfo_at_def upd_super_def current_time_def)

lemma super_at_frame:
  "super_at (upd_inode p f s) q = super_at s q" "super_at (upd_dentry p g s) q = super_at s q"
  "super_at (snd (get_next_ino s)) q = super_at s q" "super_at (s\<lparr>inodes := h\<rparr>) q = super_at s q"
  "super_at (s\<lparr>dentries := h'\<rparr>) q = super_at s q"
  by (simp_all add: super_at_def upd_inode_def upd_dentry_def get_next_ino_frame)

lemma dentries_frame:
  "dentries (upd_inode p f s) = dentries s" "dentries (snd (get_next_ino s)) = dentries s"
  by (simp_all add: upd_inode_def get_next_ino_frame)

lemma inode_at_next: "inode_at (snd (get_next_ino s)) q = inode_at s q"
  by (simp add: inode_at_def get_next_ino_frame)

lemma inode_at_inodes_update: "inode_at (s\<lparr>inodes := h\<rparr>) q = heap_at h q"
  by (simp add: inode_at_def)

lemma heap_at_snoc: "heap_at (h @ [v]) q = (if q = length h then v else heap_at h q)"
  by (simp add: heap_at_def nth_append)

lemma kind_root:
  assumes "m AND S_IALLUGO = m"
  shows "(S_IFDIR OR m) AND S_IFMT = S_IFDIR" and "(S_IFDIR OR m) AND S_IALLUGO = m"
proof -
  have "m AND S_IFMT = (m AND S_IALLUGO) AND S_IFMT"
    using assms by simp
  also have "\<dots> = m AND (S_IALLUGO AND S_IFMT)"
    by (simp add: and.assoc)
  also have "\<dots> = 0"
    by (simp add: S_IALLUGO_def S_IFMT_def)
  finally have z: "m AND S_IFMT = 0" .
  show "(S_IFDIR OR m) AND S_IFMT = S_IFDIR"
    by (simp add: bit.conj_disj_distrib2 z) (simp add: S_IFDIR_def S_IFMT_def)
  show "(S_IFDIR OR m) AND S_IALLUGO = m"
    by (simp add: bit.conj_disj_distrib2 assms) (simp add: S_IFDIR_def S_IALLUGO_def)
qed

lemma init_inode_root_mode: "i_mode (tagfs_init_inode s ino None mode dev i) = mode"
  by (auto simp: tagfs_init_inode_def inode_init_owner_def init_special_inode_def inc_nlink_def
        Let_def)

lemma d_make_root_None: "d_make_root ok s None = Inr (None, s)"
  by (simp add: d_make_root_def)

lemma d_make_root_fail:
  "inode_at s p = Some i \<Longrightarrow> i_count i = 1 \<Longrightarrow>
   d_make_root False s (Some p) = Inr (None, s\<lparr>inodes := heap_free (inodes s) p\<rparr>)"
  by (simp add: d_make_root_def iput_last)

lemma d_make_root_ok:
  "inode_at s p = Some i \<Longrightarrow>
   d_make_root True s (Some p) =
     Inr (Some (length (dentries s)),
          s\<lparr>dentries := dentries s @ [Some \<lparr>d_inode = Some p, d_count = 1, d_sb = i_sb i, d_subdirs = []\<rparr>]\<rparr>)"
  by (simp add: d_make_root_def d_alloc_anon_def heap_alloc_def d_instantiate_def dentry_at_def
        heap_at_def upd_dentry_def heap_upd_def)

text \<open>
  C5. \<^verbatim>\<open>tagfs_fill_super\<close> on a super block with a live configuration record whose mode
  has permission bits only (what \<^verbatim>\<open>tagfs_init_fs_context\<close> and \<^verbatim>\<open>tagfs_parse_param\<close> store).
  It returns 0 exactly when the root inode and its dentry are both allocated: then
  \<^verbatim>\<open>s_root\<close> is a dentry bound to a new inode that is a directory with link count 2 and with
  the configured mode as its permission bits. Otherwise it returns \<^verbatim>\<open>-ENOMEM\<close>, \<^verbatim>\<open>s_root\<close> is
  NULL, and no inode and no dentry has been added.
\<close>

theorem tagfs_fill_super_root:
  assumes sb: "super_at s sb = Some sbr" and fp: "s_fs_info sbr = Some p"
    and live: "fsinfo_at s p = Some fsi"
    and perm: "mo_mode (mount_opts fsi) AND S_IALLUGO = mo_mode (mount_opts fsi)"
  shows "\<exists>rc s1. tagfs_fill_super k inode_ok dentry_ok s sb = Inr (rc, s1) \<and>
           (rc = 0 \<longleftrightarrow> inode_ok \<and> dentry_ok) \<and>
           (rc = 0 \<longrightarrow>
              (\<exists>root inode i. map_option s_root (super_at s1 sb) = Some (Some root) \<and>
                 dentry_at s root = None \<and>
                 map_option d_inode (dentry_at s1 root) = Some (Some inode) \<and>
                 inode_at s inode = None \<and> inode_at s1 inode = Some i \<and>
                 i_mode i AND S_IFMT = S_IFDIR \<and>
                 i_mode i AND S_IALLUGO = mo_mode (mount_opts fsi) \<and> i_nlink i = 2)) \<and>
           (rc \<noteq> 0 \<longrightarrow>
              rc = - ENOMEM \<and> map_option s_root (super_at s1 sb) = Some None \<and>
              (\<forall>q. inode_at s1 q = inode_at s q) \<and> (\<forall>q. dentry_at s1 q = dentry_at s q))"
proof -
  define m where "m = S_IFDIR OR mo_mode (mount_opts fsi)"
  define b where "b = upd_super sb (\<lambda>b. b\<lparr>s_maxbytes := MAX_LFS_FILESIZE k,
              s_blocksize := 2 ^ PAGE_SHIFT k, s_blocksize_bits := PAGE_SHIFT k,
              s_magic := TAGFS_MAGIC k, s_op := Tagfs_ops, s_time_gran := 1\<rparr>) s"
  define n where "n = length (inodes s)"
  define i where "i = tagfs_init_inode (alloc_state b sb) (fst (get_next_ino b)) None m 0 (blank_inode sb)"
  define g where "g = upd_inode n (tagfs_init_inode (alloc_state b sb) (fst (get_next_ino b)) None m 0)
                        (alloc_state b sb)"
  have unfold: "tagfs_fill_super k io dk s sb =
      (case tagfs_get_inode io b sb None m 0 of
         (inode, s2) \<Rightarrow>
           (case d_make_root dk s2 inode of
              Inl f \<Rightarrow> Inl f
            | Inr (root, s3) \<Rightarrow>
                if root = None then Inr (- ENOMEM, upd_super sb (\<lambda>b. b\<lparr>s_root := root\<rparr>) s3)
                else Inr (0, upd_super sb (\<lambda>b. b\<lparr>s_root := root\<rparr>) s3)))" for io dk
    by (simp add: tagfs_fill_super_def sb fp live Let_def b_def m_def split: prod.split sum.split)
  have sbb: "\<exists>x. super_at b sb = Some x"
    by (simp add: b_def super_at_upd_super sb)
  have bi: "inode_at b q = inode_at s q" and bd: "dentry_at b q = dentry_at s q"
    and bl: "length (inodes b) = n" and bdl: "dentries b = dentries s" for q
    by (simp_all add: b_def n_def upd_super_frame)
  show ?thesis
  proof (cases inode_ok)
    case False
    have "tagfs_fill_super k False dentry_ok s sb =
        Inr (- ENOMEM, upd_super sb (\<lambda>b. b\<lparr>s_root := None\<rparr>) b)"
      by (simp add: unfold tagfs_get_inode_fail d_make_root_None)
    then show ?thesis
      using False sbb bi bd by (auto simp: super_at_upd_super upd_super_frame ENOMEM_def)
  next
    case True
    have g: "tagfs_get_inode True b sb None m 0 = (Some n, g)"
      by (simp add: tagfs_get_inode_ok bl g_def)
    have gi: "inode_at g q = (if q = n then Some i else inode_at s q)" for q
      using bl by (simp add: g_def i_def frame bi)
    have gd: "dentries g = dentries s"
      by (simp add: g_def dentries_frame bdl)
    have gs: "\<exists>x. super_at g sb = Some x"
      using sbb by (simp add: g_def super_at_frame)
    have c: "i_count i = 1"
      by (simp add: i_def init_inode_count) (simp add: blank_inode_def)
    have fresh: "inode_at s n = None"
      unfolding n_def by (rule inode_at_length)
    have gn: "inode_at g n = Some i"
      by (simp add: gi)
    show ?thesis
    proof (cases dentry_ok)
      case False
      define f where "f = g\<lparr>inodes := heap_free (inodes g) n\<rparr>"
      have "tagfs_fill_super k True False s sb =
          Inr (- ENOMEM, upd_super sb (\<lambda>b. b\<lparr>s_root := None\<rparr>) f)"
        by (simp add: unfold g d_make_root_fail [OF gn c] f_def)
      moreover have "inode_at f q = inode_at s q" for q
        using fresh by (simp add: f_def inode_at_free gi)
      moreover have "dentry_at f q = dentry_at s q" for q
        by (simp add: f_def dentry_at_def gd)
      moreover have "\<exists>x. super_at f sb = Some x"
        using gs by (simp add: f_def super_at_frame)
      ultimately show ?thesis
        using True False by (auto simp: super_at_upd_super upd_super_frame ENOMEM_def)
    next
      case dok: True
      define r where "r = length (dentries s)"
      define d where "d = g\<lparr>dentries := dentries g @
                  [Some \<lparr>d_inode = Some n, d_count = 1, d_sb = i_sb i, d_subdirs = []\<rparr>]\<rparr>"
      have "tagfs_fill_super k True True s sb =
          Inr (0, upd_super sb (\<lambda>b. b\<lparr>s_root := Some r\<rparr>) d)"
        by (simp add: unfold g d_make_root_ok [OF gn] gd r_def d_def)
      moreover have "\<exists>x. super_at d sb = Some x"
        using gs by (simp add: d_def super_at_frame)
      moreover have "dentry_at s r = None"
        by (simp add: r_def dentry_at_def heap_at_def)
      moreover have "map_option d_inode (dentry_at d r) = Some (Some n)"
        by (simp add: d_def r_def dentry_at_def heap_at_def gd)
      moreover have "inode_at d n = Some i"
        using gn by (simp add: d_def inode_at_def)
      moreover have "i_mode i AND S_IFMT = S_IFDIR" "i_mode i AND S_IALLUGO = mo_mode (mount_opts fsi)"
        by (simp_all add: i_def m_def init_inode_root_mode kind_root [OF perm])
      moreover have "i_nlink i = 2"
        by (simp add: i_def m_def init_inode_nlink kind_root [OF perm]) (simp add: blank_inode_def)
      ultimately show ?thesis
        using True dok fresh
        by (auto simp: super_at_upd_super upd_super_frame)
    qed
  qed
qed

theorem tagfs_fill_super_root_witness:
  "super_at ex_unfilled 0 =
     Some \<lparr>s_fs_info = Some 0, s_root = None, s_maxbytes = 0, s_blocksize = 0,
            s_blocksize_bits = 0, s_magic = 0, s_op = No_sops, s_time_gran = 1000000000\<rparr> \<and>
   fsinfo_at ex_unfilled 0 = Some (ex_fsi\<lparr>mount_opts := \<lparr>mo_mode = 0x1E8\<rparr>\<rparr>) \<and>
   (0x1E8 :: umode_t) AND S_IALLUGO = 0x1E8 \<and>
   (\<exists>s1 root inode i. tagfs_fill_super ex_consts True True ex_unfilled 0 = Inr (0, s1) \<and>
      map_option s_root (super_at s1 0) = Some (Some root) \<and>
      map_option d_inode (dentry_at s1 root) = Some (Some inode) \<and>
      inode_at s1 inode = Some i \<and> i_mode i AND S_IFMT = S_IFDIR \<and>
      i_mode i AND S_IALLUGO = 0x1E8 \<and> i_nlink i = 2) \<and>
   (\<exists>s1. tagfs_fill_super ex_consts False True ex_unfilled 0 = Inr (- ENOMEM, s1) \<and>
      map_option s_root (super_at s1 0) = Some None \<and> inode_at s1 0 = None) \<and>
   (\<exists>s1. tagfs_fill_super ex_consts True False ex_unfilled 0 = Inr (- ENOMEM, s1) \<and>
      map_option s_root (super_at s1 0) = Some None \<and> inode_at s1 0 = None)"
proof -
  have sb: "super_at ex_unfilled 0 =
     Some \<lparr>s_fs_info = Some 0, s_root = None, s_maxbytes = 0, s_blocksize = 0,
            s_blocksize_bits = 0, s_magic = 0, s_op = No_sops, s_time_gran = 1000000000\<rparr>"
    by (simp add: ex_unfilled_def super_at_def heap_at_def)
  have fp: "s_fs_info \<lparr>s_fs_info = Some 0, s_root = None, s_maxbytes = 0, s_blocksize = 0,
            s_blocksize_bits = 0, s_magic = 0, s_op = No_sops, s_time_gran = 1000000000\<rparr> = Some 0"
    by simp
  have live: "fsinfo_at ex_unfilled 0 = Some (ex_fsi\<lparr>mount_opts := \<lparr>mo_mode = 0x1E8\<rparr>\<rparr>)"
    by (simp add: ex_unfilled_def fsinfo_at_def heap_at_def)
  have perm: "mo_mode (mount_opts (ex_fsi\<lparr>mount_opts := \<lparr>mo_mode = 0x1E8\<rparr>\<rparr>)) AND S_IALLUGO =
      mo_mode (mount_opts (ex_fsi\<lparr>mount_opts := \<lparr>mo_mode = 0x1E8\<rparr>\<rparr>))"
    by (simp add: S_IALLUGO_def)
  have p: "(0x1E8 :: umode_t) AND S_IALLUGO = 0x1E8"
    by (simp add: S_IALLUGO_def)
  have none: "inode_at ex_unfilled 0 = None"
    by (simp add: ex_unfilled_def inode_at_def heap_at_def)
  have e: "ENOMEM \<noteq> 0"
    by (simp add: ENOMEM_def)
  from tagfs_fill_super_root [OF sb fp live perm, of ex_consts True True]
  have a: "\<exists>s1 root inode i. tagfs_fill_super ex_consts True True ex_unfilled 0 = Inr (0, s1) \<and>
      map_option s_root (super_at s1 0) = Some (Some root) \<and>
      map_option d_inode (dentry_at s1 root) = Some (Some inode) \<and>
      inode_at s1 inode = Some i \<and> i_mode i AND S_IFMT = S_IFDIR \<and>
      i_mode i AND S_IALLUGO = 0x1E8 \<and> i_nlink i = 2"
    by auto
  from tagfs_fill_super_root [OF sb fp live perm, of ex_consts False True]
  have b: "\<exists>s1. tagfs_fill_super ex_consts False True ex_unfilled 0 = Inr (- ENOMEM, s1) \<and>
      map_option s_root (super_at s1 0) = Some None \<and> inode_at s1 0 = None"
    using none e by auto
  from tagfs_fill_super_root [OF sb fp live perm, of ex_consts True False]
  have c: "\<exists>s1. tagfs_fill_super ex_consts True False ex_unfilled 0 = Inr (- ENOMEM, s1) \<and>
      map_option s_root (super_at s1 0) = Some None \<and> inode_at s1 0 = None"
    using none e by auto
  show ?thesis
    using sb live p a b c by blast
qed

text \<open>
  The configured mode has permission bits only: \<^verbatim>\<open>tagfs_init_fs_context\<close> stores the
  default, and \<^verbatim>\<open>tagfs_parse_param\<close> keeps the property.
\<close>

lemma default_mode_within_S_IALLUGO: "TAGFS_DEFAULT_MODE AND S_IALLUGO = TAGFS_DEFAULT_MODE"
  by (simp add: TAGFS_DEFAULT_MODE_def S_IALLUGO_def)

lemma tagfs_init_fs_context_within_S_IALLUGO:
  assumes "tagfs_init_fs_context True s0 fc0 = (rc, s1, fc1)"
  shows "\<exists>p fsi. fc_s_fs_info fc1 = Some p \<and> fsinfo_at s1 p = Some fsi \<and>
           mo_mode (mount_opts fsi) AND S_IALLUGO = mo_mode (mount_opts fsi)"
  using tagfs_init_fs_context_mode [OF assms] by (auto simp: default_mode_within_S_IALLUGO)

lemma tagfs_parse_param_within_S_IALLUGO:
  assumes r: "tagfs_parse_param s fc param = Inr (rc, s1, fc1)"
    and live: "fsinfo_at s p = Some fsi"
    and perm: "mo_mode (mount_opts fsi) AND S_IALLUGO = mo_mode (mount_opts fsi)"
  shows "\<exists>fsi1. fsinfo_at s1 p = Some fsi1 \<and>
           mo_mode (mount_opts fsi1) AND S_IALLUGO = mo_mode (mount_opts fsi1)"
  using r live perm
  by (auto simp: tagfs_parse_param_def Let_def fsinfo_at_upd_fsinfo masked_within_S_IALLUGO
      split: prod.splits if_splits option.splits)

subsection \<open>Tear-down\<close>

lemma kfree_live:
  "fsinfo_at s p = Some f \<Longrightarrow>
   kfree (Some p) s = Inr (s\<lparr>fsinfo := heap_free (fsinfo s) p, klog := klog s @ [Kfree p]\<rparr>)"
  by (simp add: kfree_def)

lemma tagfs_kill_sb_log:
  assumes sb: "super_at s sb = Some sbr" and fp: "s_fs_info sbr = Some p"
    and live: "fsinfo_at s p = Some fsi"
  shows "\<exists>s1. tagfs_kill_sb k s sb = Inr s1 \<and>
           klog s1 = klog s @ [Mutex_destroy p] @
             (case bdevp fsi of Some b \<Rightarrow> [Blkdev_put b (tagfs_blkdev_mode k)] | None \<Rightarrow> []) @
             (case dax_devp fsi of Some d \<Rightarrow> [Fs_put_dax d p] | None \<Rightarrow> []) @
             [Kfree p, Kill_litter_super sb] \<and>
           fsinfo_at s1 p = None"
proof -
  define s3 where "s3 =
    (let s1 = mutex_destroy p s;
         s2 = (case bdevp fsi of Some b \<Rightarrow> blkdev_put b (tagfs_blkdev_mode k) s1 | None \<Rightarrow> s1)
     in case dax_devp fsi of Some d \<Rightarrow> fs_put_dax d p s2 | None \<Rightarrow> s2)"
  have l3: "klog s3 = klog s @ [Mutex_destroy p] @
      (case bdevp fsi of Some b \<Rightarrow> [Blkdev_put b (tagfs_blkdev_mode k)] | None \<Rightarrow> []) @
      (case dax_devp fsi of Some d \<Rightarrow> [Fs_put_dax d p] | None \<Rightarrow> [])"
    by (simp add: s3_def Let_def mutex_destroy_def blkdev_put_def fs_put_dax_def upd_fsinfo_def
          split: option.splits)
  have f3: "fsinfo_at s3 p = Some (fsi\<lparr>fsi_mutex := Mutex_destroyed\<rparr>)"
    using live
    by (simp add: s3_def Let_def mutex_destroy_def blkdev_put_def fs_put_dax_def fsinfo_at_def
          upd_fsinfo_def heap_at_upd split: option.splits)
  define s1 where "s1 = kill_litter_super sb
    (s3\<lparr>fsinfo := heap_free (fsinfo s3) p, klog := klog s3 @ [Kfree p]\<rparr>)"
  have r: "tagfs_kill_sb k s sb = Inr s1"
    by (simp add: tagfs_kill_sb_def sb fp live Let_def s3_def [symmetric, unfolded Let_def]
          kfree_live [OF f3] s1_def)
  have l1: "klog s1 = klog s3 @ [Kfree p, Kill_litter_super sb]"
    by (simp add: s1_def kill_litter_super_def)
  have g1: "fsinfo_at s1 p = None"
    by (simp add: s1_def kill_litter_super_def fsinfo_at_def heap_at_free)
  show ?thesis
    using r l1 l3 g1 by auto
qed

subsection \<open>From the mount request to the unmount\<close>

lemma upd_fsinfo_frame:
  "klog (upd_fsinfo p f s) = klog s" "supers (upd_fsinfo p f s) = supers s"
  "super_at (upd_fsinfo p f s) q = super_at s q" "dentry_at (upd_fsinfo p f s) q = dentry_at s q"
  by (simp_all add: upd_fsinfo_def super_at_def dentry_at_def)

lemma tagfs_init_fs_context_fail: "tagfs_init_fs_context False s fc = (- ENOMEM, s, fc)"
  by (simp add: tagfs_init_fs_context_def kzalloc_def)

lemma tagfs_init_fs_context_owns:
  "\<exists>s1 fc1. tagfs_init_fs_context True s blank_fc = (0, s1, fc1) \<and>
     owns_record (length (fsinfo s)) s1 fc1 \<and> klog s1 = klog s \<and> supers s1 = supers s"
  by (simp add: tagfs_init_fs_context_def kzalloc_def heap_alloc_def Let_def owns_record_def
        blank_fc_def fsinfo_at_upd_fsinfo upd_fsinfo_frame zeroed_fs_info_def)
    (simp add: fsinfo_at_def heap_at_def)

lemma tagfs_parse_param_owns:
  assumes "owns_record p s fc"
  shows "\<exists>ret s1 fc1. tagfs_parse_param s fc param = Inr (ret, s1, fc1) \<and>
           owns_record p s1 fc1 \<and> klog s1 = klog s \<and> supers s1 = supers s"
  using assms
  by (auto simp: tagfs_parse_param_def owns_record_def Let_def vfs_parse_fs_param_source_def
        fsinfo_at_upd_fsinfo upd_fsinfo_frame
      split: prod.splits option.splits if_splits)

lemma generic_parse_monolithic_owns:
  "owns_record p s fc \<Longrightarrow>
   \<exists>ret s1 fc1. generic_parse_monolithic s fc params = Inr (ret, s1, fc1) \<and>
     owns_record p s1 fc1 \<and> klog s1 = klog s \<and> supers s1 = supers s"
proof (induction params arbitrary: s fc)
  case Nil
  then show ?case by simp
next
  case (Cons param params)
  from tagfs_parse_param_owns [OF Cons.prems, of param]
  obtain ret s1 fc1 where r: "tagfs_parse_param s fc param = Inr (ret, s1, fc1)"
    and o: "owns_record p s1 fc1" and l: "klog s1 = klog s" and u: "supers s1 = supers s"
    by blast
  show ?case
  proof (cases "ret < 0")
    case True
    then show ?thesis
      using r o l u by simp
  next
    case False
    from Cons.IH [OF o] obtain ret2 s2 fc2
      where "generic_parse_monolithic s1 fc1 params = Inr (ret2, s2, fc2)"
        and "owns_record p s2 fc2" and "klog s2 = klog s1" and "supers s2 = supers s1"
      by blast
    then show ?thesis
      using False r l u by simp
  qed
qed

lemma generic_parse_monolithic_Nil: "generic_parse_monolithic s fc [] = Inr (0, s, fc)"
  by simp

lemma init_inode_sb: "i_sb (tagfs_init_inode s ino dir mode dev i) = i_sb i"
  by (auto simp: tagfs_init_inode_def inode_init_owner_def init_special_inode_def inc_nlink_def
        Let_def split: option.splits)

lemma state_frame:
  "fsinfo (upd_inode p f s) = fsinfo s" "klog (upd_inode p f s) = klog s"
  "fsinfo (upd_dentry p g s) = fsinfo s" "klog (upd_dentry p g s) = klog s"
  "fsinfo (upd_super p h s) = fsinfo s" "klog (upd_super p h s) = klog s"
  "supers (upd_inode p f s) = supers s" "supers (upd_dentry p g s) = supers s"
  by (simp_all add: upd_inode_def upd_dentry_def upd_super_def)

lemma tagfs_fill_super_frame:
  assumes sb: "super_at s sb = Some b0" and fp: "s_fs_info b0 = Some p"
    and live: "fsinfo_at s p = Some fsi"
  shows "\<exists>ret s2 b. tagfs_fill_super k io dk s sb = Inr (ret, s2) \<and> (ret = 0 \<longleftrightarrow> io \<and> dk) \<and>
           fsinfo s2 = fsinfo s \<and> klog s2 = klog s \<and>
           super_at s2 sb = Some b \<and> s_fs_info b = Some p \<and>
           (ret = 0 \<longrightarrow> (\<exists>r de. s_root b = Some r \<and> dentry_at s2 r = Some de \<and> d_sb de = sb))"
proof -
  define m where "m = S_IFDIR OR mo_mode (mount_opts fsi)"
  define b where "b = upd_super sb (\<lambda>b. b\<lparr>s_maxbytes := MAX_LFS_FILESIZE k,
              s_blocksize := 2 ^ PAGE_SHIFT k, s_blocksize_bits := PAGE_SHIFT k,
              s_magic := TAGFS_MAGIC k, s_op := Tagfs_ops, s_time_gran := 1\<rparr>) s"
  define n where "n = length (inodes s)"
  define i where "i = tagfs_init_inode (alloc_state b sb) (fst (get_next_ino b)) None m 0 (blank_inode sb)"
  define g where "g = upd_inode n (tagfs_init_inode (alloc_state b sb) (fst (get_next_ino b)) None m 0)
                        (alloc_state b sb)"
  have unfold: "tagfs_fill_super k io' dk' s sb =
      (case tagfs_get_inode io' b sb None m 0 of
         (inode, s2) \<Rightarrow>
           (case d_make_root dk' s2 inode of
              Inl f \<Rightarrow> Inl f
            | Inr (root, s3) \<Rightarrow>
                if root = None then Inr (- ENOMEM, upd_super sb (\<lambda>b. b\<lparr>s_root := root\<rparr>) s3)
                else Inr (0, upd_super sb (\<lambda>b. b\<lparr>s_root := root\<rparr>) s3)))" for io' dk'
    by (simp add: tagfs_fill_super_def sb fp live Let_def b_def m_def split: prod.split sum.split)
  obtain b1 where sbb: "super_at b sb = Some b1" and fb: "s_fs_info b1 = Some p"
    using fp by (simp add: b_def super_at_upd_super sb)
  have bf: "fsinfo b = fsinfo s" and bk: "klog b = klog s" and bl: "length (inodes b) = n"
    and bdl: "dentries b = dentries s"
    by (simp_all add: b_def n_def upd_super_frame state_frame)
  have e: "ENOMEM \<noteq> 0"
    by (simp add: ENOMEM_def)
  show ?thesis
  proof (cases io)
    case False
    have "tagfs_fill_super k False dk s sb =
        Inr (- ENOMEM, upd_super sb (\<lambda>b. b\<lparr>s_root := None\<rparr>) b)"
      by (simp add: unfold tagfs_get_inode_fail d_make_root_None)
    then show ?thesis
      using False sbb fb bf bk e by (simp add: super_at_upd_super state_frame)
  next
    case True
    have g: "tagfs_get_inode True b sb None m 0 = (Some n, g)"
      by (simp add: tagfs_get_inode_ok bl g_def)
    have gn: "inode_at g n = Some i"
      using bl by (simp add: g_def i_def frame)
    have gd: "dentries g = dentries s"
      by (simp add: g_def dentries_frame bdl)
    have gs: "super_at g sb = Some b1"
      using sbb by (simp add: g_def super_at_frame)
    have gf: "fsinfo g = fsinfo s" and gk: "klog g = klog s"
      by (simp_all add: g_def state_frame get_next_ino_frame bf bk)
    have c: "i_count i = 1"
      by (simp add: i_def init_inode_count) (simp add: blank_inode_def)
    have isb: "i_sb i = sb"
      by (simp add: i_def init_inode_sb) (simp add: blank_inode_def)
    show ?thesis
    proof (cases dk)
      case False
      define f where "f = g\<lparr>inodes := heap_free (inodes g) n\<rparr>"
      have "tagfs_fill_super k True False s sb =
          Inr (- ENOMEM, upd_super sb (\<lambda>b. b\<lparr>s_root := None\<rparr>) f)"
        by (simp add: unfold g d_make_root_fail [OF gn c] f_def)
      moreover have "super_at f sb = Some b1" "fsinfo f = fsinfo s" "klog f = klog s"
        using gs gf gk by (simp_all add: f_def super_at_frame)
      ultimately show ?thesis
        using True False fb e by (simp add: super_at_upd_super state_frame)
    next
      case dok: True
      define r where "r = length (dentries s)"
      define d where "d = g\<lparr>dentries := dentries g @
                  [Some \<lparr>d_inode = Some n, d_count = 1, d_sb = i_sb i, d_subdirs = []\<rparr>]\<rparr>"
      have "tagfs_fill_super k True True s sb =
          Inr (0, upd_super sb (\<lambda>b. b\<lparr>s_root := Some r\<rparr>) d)"
        by (simp add: unfold g d_make_root_ok [OF gn] gd r_def d_def)
      moreover have "super_at d sb = Some b1" "fsinfo d = fsinfo s" "klog d = klog s"
        using gs gf gk by (simp_all add: d_def super_at_frame)
      moreover have "dentry_at d r =
          Some \<lparr>d_inode = Some n, d_count = 1, d_sb = sb, d_subdirs = []\<rparr>"
        by (simp add: d_def r_def dentry_at_def heap_at_def gd isb)
      ultimately show ?thesis
        using True dok fb by (simp add: super_at_upd_super state_frame upd_super_frame)
    qed
  qed
qed

lemma tagfs_get_tree_cases:
  assumes o: "owns_record p s fc"
  shows "\<exists>ret s3 fc3. tagfs_get_tree k sb_ok io dk s fc = Inr (ret, s3, fc3) \<and>
           (ret = 0 \<longleftrightarrow> sb_ok \<and> io \<and> dk) \<and> fc_ops fc3 = Tagfs_context_ops \<and>
           (\<not> sb_ok \<longrightarrow> s3 = s \<and> fc3 = fc) \<and>
           (sb_ok \<longrightarrow> fc_s_fs_info fc3 = None) \<and>
           (sb_ok \<and> ret \<noteq> 0 \<longrightarrow>
              fc_root fc3 = None \<and> fsinfo_at s3 p = None \<and>
              klog s3 = klog s @ [Mutex_destroy p, Kfree p, Kill_litter_super (length (supers s))]) \<and>
           (ret = 0 \<longrightarrow>
              klog s3 = klog s \<and>
              (\<exists>r de b f. fc_root fc3 = Some r \<and> dentry_at s3 r = Some de \<and>
                 d_sb de = length (supers s) \<and> super_at s3 (length (supers s)) = Some b \<and>
                 s_fs_info b = Some p \<and> fsinfo_at s3 p = Some f))"
proof -
  from o obtain f where fp: "fc_s_fs_info fc = Some p" and ops: "fc_ops fc = Tagfs_context_ops"
    and live: "fsinfo_at s p = Some f" and nb: "bdevp f = None" and nd: "dax_devp f = None"
    by (auto simp: owns_record_def split: option.splits)
  have e: "ENOMEM \<noteq> 0"
    by (simp add: ENOMEM_def)
  show ?thesis
  proof (cases sb_ok)
    case False
    then show ?thesis
      using ops e by (simp add: tagfs_get_tree_def get_tree_nodev_def sget_fc_def)
  next
    case True
    define sb where "sb = length (supers s)"
    define nsb where "nsb = \<lparr>s_fs_info = Some p, s_root = None, s_maxbytes = 0, s_blocksize = 0,
        s_blocksize_bits = 0, s_magic = 0, s_op = No_sops, s_time_gran = 1000000000\<rparr>"
    define s1 where "s1 = s\<lparr>supers := supers s @ [Some nsb]\<rparr>"
    define fc1 where "fc1 = fc\<lparr>fc_s_fs_info := None\<rparr>"
    have sg: "sget_fc True s fc = (Some sb, s1, fc1)"
      by (simp add: sget_fc_def heap_alloc_def sb_def s1_def fc1_def nsb_def fp)
    have sb1: "super_at s1 sb = Some nsb" and fn: "s_fs_info nsb = Some p"
      and k1: "klog s1 = klog s"
      by (simp_all add: s1_def sb_def nsb_def super_at_def heap_at_def)
    have live1: "fsinfo_at s1 p = Some f"
      using live by (simp add: s1_def fsinfo_at_def)
    from tagfs_fill_super_frame [OF sb1 fn live1, of k io dk]
    obtain ret s2 b where fill: "tagfs_fill_super k io dk s1 sb = Inr (ret, s2)"
      and iff: "ret = 0 \<longleftrightarrow> io \<and> dk" and f2: "fsinfo s2 = fsinfo s1" and k2: "klog s2 = klog s1"
      and sb2: "super_at s2 sb = Some b" and fb: "s_fs_info b = Some p"
      and root: "ret = 0 \<longrightarrow> (\<exists>r de. s_root b = Some r \<and> dentry_at s2 r = Some de \<and> d_sb de = sb)"
      by blast
    have live2: "fsinfo_at s2 p = Some f"
      using live1 by (simp add: fsinfo_at_def f2)
    have fc1_ops: "fc_ops fc1 = Tagfs_context_ops" "fc_s_fs_info fc1 = None" "fc_root fc1 = fc_root fc"
      by (simp_all add: fc1_def ops)
    have noroot: "fc_root fc = None"
      using o by (simp add: owns_record_def)
    show ?thesis
    proof (cases "ret = 0")
      case False
      from tagfs_kill_sb_log [OF sb2 fb live2, of k]
      obtain s3 where ks: "tagfs_kill_sb k s2 sb = Inr s3"
        and l3: "klog s3 = klog s2 @ [Mutex_destroy p, Kfree p, Kill_litter_super sb]"
        and g3: "fsinfo_at s3 p = None"
        by (auto simp: nb nd)
      have "tagfs_get_tree k True io dk s fc = Inr (ret, s3, fc1)"
        using False by (simp add: tagfs_get_tree_def get_tree_nodev_def sg fill ks)
      then show ?thesis
        using True False iff fc1_ops noroot l3 g3 k2 k1 by (simp add: sb_def)
    next
      case z: True
      from root z obtain r de where sr: "s_root b = Some r" and dr: "dentry_at s2 r = Some de"
        and ds: "d_sb de = sb"
        by blast
      have "tagfs_get_tree k True io dk s fc = Inr (0, dget r s2, fc1\<lparr>fc_root := Some r\<rparr>)"
        using z by (simp add: tagfs_get_tree_def get_tree_nodev_def sg fill sb2 sr)
      moreover have "dentry_at (dget r s2) r = Some (de\<lparr>d_count := d_count de + 1\<rparr>)"
        by (simp add: dget_def dentry_at_upd_dentry dr)
      moreover have "super_at (dget r s2) sb = Some b" "klog (dget r s2) = klog s"
        "fsinfo_at (dget r s2) p = Some f"
        using sb2 live2 by (simp_all add: dget_def super_at_frame state_frame k2 k1 fsinfo_at_def)
      ultimately show ?thesis
        using True z iff fc1_ops fb ds by (simp add: sb_def)
    qed
  qed
qed

lemma put_fs_context_owner:
  assumes "owns_record p s fc"
  shows "\<exists>s1. put_fs_context s fc = Inr s1 \<and> klog s1 = klog s @ [Kfree p] \<and> fsinfo_at s1 p = None"
  using assms
  by (auto simp: put_fs_context_def tagfs_free_fc_def kfree_def owns_record_def fsinfo_at_def
        heap_at_free split: option.splits)

lemma put_fs_context_handed_over:
  assumes "fc_s_fs_info fc = None"
  shows "put_fs_context s fc = Inr (case fc_root fc of Some r \<Rightarrow> dput r s | None \<Rightarrow> s)"
  using assms by (simp add: put_fs_context_def tagfs_free_fc_def kfree_def Let_def)

lemma volume_lifecycle_log:
  "\<exists>ret s'. volume_lifecycle k fsi_ok sb_ok inode_ok dentry_ok params bdev dax_dev s = Inr (ret, s') \<and>
     (\<not> fsi_ok \<longrightarrow> ret \<noteq> 0 \<and> s' = s) \<and>
     (fsi_ok \<longrightarrow>
        fsinfo_at s' (length (fsinfo s)) = None \<and>
        (ret \<noteq> 0 \<and>
           (klog s' = klog s @ [Kfree (length (fsinfo s))] \<or>
            klog s' = klog s @ [Mutex_destroy (length (fsinfo s)), Kfree (length (fsinfo s)),
                                Kill_litter_super (length (supers s))]) \<or>
         ret = 0 \<and> sb_ok \<and> inode_ok \<and> dentry_ok \<and>
           klog s' = klog s @ [Mutex_destroy (length (fsinfo s))] @
             (case bdev of Some b \<Rightarrow> [Blkdev_put b (tagfs_blkdev_mode k)] | None \<Rightarrow> []) @
             (case dax_dev of Some d \<Rightarrow> [Fs_put_dax d (length (fsinfo s))] | None \<Rightarrow> []) @
             [Kfree (length (fsinfo s)), Kill_litter_super (length (supers s))])) \<and>
     (params = [] \<and> fsi_ok \<and> sb_ok \<and> inode_ok \<and> dentry_ok \<longrightarrow> ret = 0)"
proof (cases fsi_ok)
  case False
  have "put_fs_context s blank_fc = Inr s"
    by (simp add: put_fs_context_def blank_fc_def)
  then show ?thesis
    using False by (simp add: volume_lifecycle_def tagfs_init_fs_context_fail ENOMEM_def)
next
  case True
  define p where "p = length (fsinfo s)"
  define sb where "sb = length (supers s)"
  from tagfs_init_fs_context_owns [of s]
  obtain s1 fc1 where init: "tagfs_init_fs_context True s blank_fc = (0, s1, fc1)"
    and o1: "owns_record p s1 fc1" and k1: "klog s1 = klog s" and u1: "supers s1 = supers s"
    by (auto simp: p_def)
  from generic_parse_monolithic_owns [OF o1, of params]
  obtain ret2 s2 fc2 where parse: "generic_parse_monolithic s1 fc1 params = Inr (ret2, s2, fc2)"
    and o2: "owns_record p s2 fc2" and k2: "klog s2 = klog s1" and u2: "supers s2 = supers s1"
    by blast
  have nil: "params = [] \<longrightarrow> \<not> ret2 < 0"
    using parse by auto
  show ?thesis
  proof (cases "ret2 < 0")
    case neg: True
    from put_fs_context_owner [OF o2]
    obtain s3 where "put_fs_context s2 fc2 = Inr s3" and "klog s3 = klog s2 @ [Kfree p]"
      and "fsinfo_at s3 p = None"
      by blast
    then have "volume_lifecycle k True sb_ok inode_ok dentry_ok params bdev dax_dev s = Inr (ret2, s3)"
      using neg by (simp add: volume_lifecycle_def init parse)
    then show ?thesis
      using True neg nil \<open>klog s3 = klog s2 @ [Kfree p]\<close> \<open>fsinfo_at s3 p = None\<close> k1 k2
      by (auto simp: p_def)
  next
    case nonneg: False
    from tagfs_get_tree_cases [OF o2, of k sb_ok inode_ok dentry_ok]
    obtain ret s3 fc3 where gt: "tagfs_get_tree k sb_ok inode_ok dentry_ok s2 fc2 = Inr (ret, s3, fc3)"
      and iff: "ret = 0 \<longleftrightarrow> sb_ok \<and> inode_ok \<and> dentry_ok"
      and nosb: "\<not> sb_ok \<longrightarrow> s3 = s2 \<and> fc3 = fc2"
      and handed: "sb_ok \<longrightarrow> fc_s_fs_info fc3 = None"
      and failed: "sb_ok \<and> ret \<noteq> 0 \<longrightarrow>
              fc_root fc3 = None \<and> fsinfo_at s3 p = None \<and>
              klog s3 = klog s2 @ [Mutex_destroy p, Kfree p, Kill_litter_super (length (supers s2))]"
      and mounted: "ret = 0 \<longrightarrow>
              klog s3 = klog s2 \<and>
              (\<exists>r de b f. fc_root fc3 = Some r \<and> dentry_at s3 r = Some de \<and>
                 d_sb de = length (supers s2) \<and> super_at s3 (length (supers s2)) = Some b \<and>
                 s_fs_info b = Some p \<and> fsinfo_at s3 p = Some f)"
      by blast
    have unfold: "volume_lifecycle k True sb_ok inode_ok dentry_ok params bdev dax_dev s =
        (case put_fs_context s3 fc3 of
           Inl f \<Rightarrow> Inl f
         | Inr s4 \<Rightarrow>
             if ret \<noteq> 0 then Inr (ret, s4)
             else (case fc_root fc3 of
                     None \<Rightarrow> Inl Oops
                   | Some r \<Rightarrow>
                       (case dentry_at s4 r of
                          None \<Rightarrow> Inl Oops
                        | Some de \<Rightarrow>
                            (case tagfs_kill_sb k (attach_devices bdev dax_dev (d_sb de) s4) (d_sb de) of
                               Inl f \<Rightarrow> Inl f
                             | Inr s5 \<Rightarrow> Inr (0, s5)))))"
      using nonneg by (simp add: volume_lifecycle_def init parse gt)
    have su: "length (supers s2) = sb"
      by (simp add: sb_def u1 u2)
    show ?thesis
    proof (cases sb_ok)
      case False
      with nosb have eq: "s3 = s2" "fc3 = fc2" and r: "ret \<noteq> 0"
        using iff by auto
      from put_fs_context_owner [OF o2]
      obtain s4 where "put_fs_context s2 fc2 = Inr s4" and "klog s4 = klog s2 @ [Kfree p]"
        and "fsinfo_at s4 p = None"
        by blast
      then have "volume_lifecycle k True sb_ok inode_ok dentry_ok params bdev dax_dev s = Inr (ret, s4)"
        and "klog s4 = klog s @ [Kfree p]" and "fsinfo_at s4 p = None"
        using r k1 k2 by (simp_all add: unfold eq)
      then show ?thesis
        using True False r by (auto simp: p_def)
    next
      case sok: True
      with handed have h: "fc_s_fs_info fc3 = None"
        by simp
      show ?thesis
      proof (cases "ret = 0")
        case False
        with failed sok have "fc_root fc3 = None" "fsinfo_at s3 p = None"
          "klog s3 = klog s2 @ [Mutex_destroy p, Kfree p, Kill_litter_super sb]"
          by (simp_all add: su)
        then show ?thesis
          using True False iff k1 k2
          by (auto simp: unfold put_fs_context_handed_over [OF h] p_def sb_def)
      next
        case z: True
        with mounted obtain r de b f where k3: "klog s3 = klog s2" and fr: "fc_root fc3 = Some r"
          and dr: "dentry_at s3 r = Some de" and ds: "d_sb de = sb"
          and sb3: "super_at s3 sb = Some b" and fb: "s_fs_info b = Some p"
          and live3: "fsinfo_at s3 p = Some f"
          by (auto simp: su)
        define s4 where "s4 = dput r s3"
        have put: "put_fs_context s3 fc3 = Inr s4"
          by (simp add: put_fs_context_handed_over [OF h] fr s4_def)
        have d4: "dentry_at s4 r = Some (de\<lparr>d_count := d_count de - 1\<rparr>)"
          by (simp add: s4_def dput_def dentry_at_upd_dentry dr)
        have sb4: "super_at s4 sb = Some b" and k4: "klog s4 = klog s3"
          and live4: "fsinfo_at s4 p = Some f"
          using sb3 live3 by (simp_all add: s4_def dput_def super_at_frame state_frame fsinfo_at_def)
        define s5 where "s5 = attach_devices bdev dax_dev sb s4"
        have s5: "s5 = upd_fsinfo p (\<lambda>f. f\<lparr>bdevp := bdev, dax_devp := dax_dev\<rparr>) s4"
          by (simp add: s5_def attach_devices_def sb4 fb)
        have sb5: "super_at s5 sb = Some b" and k5: "klog s5 = klog s4"
          and live5: "fsinfo_at s5 p = Some (f\<lparr>bdevp := bdev, dax_devp := dax_dev\<rparr>)"
          using sb4 live4 by (simp_all add: s5 upd_fsinfo_frame fsinfo_at_upd_fsinfo)
        from tagfs_kill_sb_log [OF sb5 fb live5, of k]
        obtain s6 where ks: "tagfs_kill_sb k s5 sb = Inr s6"
          and l6: "klog s6 = klog s5 @ [Mutex_destroy p] @
             (case bdev of Some b \<Rightarrow> [Blkdev_put b (tagfs_blkdev_mode k)] | None \<Rightarrow> []) @
             (case dax_dev of Some d \<Rightarrow> [Fs_put_dax d p] | None \<Rightarrow> []) @
             [Kfree p, Kill_litter_super sb]"
          and g6: "fsinfo_at s6 p = None"
          by auto
        have res: "volume_lifecycle k True sb_ok inode_ok dentry_ok params bdev dax_dev s = Inr (0, s6)"
          using z by (simp add: unfold put fr d4 ds s5_def [symmetric] ks)
        have log: "klog s6 = klog s @ [Mutex_destroy (length (fsinfo s))] @
             (case bdev of Some b \<Rightarrow> [Blkdev_put b (tagfs_blkdev_mode k)] | None \<Rightarrow> []) @
             (case dax_dev of Some d \<Rightarrow> [Fs_put_dax d (length (fsinfo s))] | None \<Rightarrow> []) @
             [Kfree (length (fsinfo s)), Kill_litter_super (length (supers s))]"
          using l6 unfolding p_def sb_def by (simp add: k1 k2 k3 k4 k5)
        have dead: "fsinfo_at s6 (length (fsinfo s)) = None"
          using g6 by (simp add: p_def)
        from iff z have "sb_ok \<and> inode_ok \<and> dentry_ok"
          by simp
        then show ?thesis
          using True res log dead by auto
      qed
    qed
  qed
qed

lemmas lifecycle_defs = volume_lifecycle_def tagfs_init_fs_context_def kzalloc_def heap_alloc_def
  blank_fc_def upd_fsinfo_def heap_upd_def heap_at_def zeroed_fs_info_def ex_state_def ex_fsi_def
  ex_super_def ex_root_def tagfs_parse_param_def fs_parse_def tagfs_fs_parameters_def
  fs_param_is_u32_def kstrtouint_def digit_value_def ex_param_mode_def ex_param_size_def
  vfs_parse_fs_param_source_def fsinfo_at_def Opt_mode_def ENOPARAM_def EINVAL_def ENOMEM_def
  S_IALLUGO_def Let_def tagfs_get_tree_def get_tree_nodev_def sget_fc_def tagfs_fill_super_def
  super_at_def upd_super_def tagfs_get_inode_def new_inode_def get_next_ino_def upd_inode_def
  tagfs_init_inode_def inode_init_owner_def current_time_def inc_nlink_def blank_inode_def
  S_IFDIR_def S_IFMT_def S_IFREG_def S_IFLNK_def TAGFS_DEFAULT_MODE_def d_make_root_def
  inode_at_def d_alloc_anon_def d_instantiate_def dentry_at_def upd_dentry_def dget_def dput_def
  put_fs_context_def tagfs_free_fc_def kfree_def attach_devices_def tagfs_kill_sb_def
  mutex_destroy_def blkdev_put_def fs_put_dax_def kill_litter_super_def heap_free_def
  ex_consts_def iput_def nth_append

lemma volume_lifecycle_mounted_example:
  "(case volume_lifecycle ex_consts True True True True [ex_param_mode, ex_param_size]
           (Some 7) (Some 9) ex_state of
      Inl f \<Rightarrow> False
    | Inr (ret, s') \<Rightarrow>
        ret = 0 \<and>
        klog s' = [Mutex_destroy 1, Blkdev_put 7 3, Fs_put_dax 9 1, Kfree 1, Kill_litter_super 1])"
  by (simp add: lifecycle_defs)

lemma volume_lifecycle_no_dentry_example:
  "(case volume_lifecycle ex_consts True True True False [ex_param_mode] (Some 7) (Some 9)
           ex_state of
      Inl f \<Rightarrow> False
    | Inr (ret, s') \<Rightarrow>
        ret = - ENOMEM \<and> klog s' = [Mutex_destroy 1, Kfree 1, Kill_litter_super 1])"
  by (simp add: lifecycle_defs)

lemma volume_lifecycle_bad_option_example:
  "(case volume_lifecycle ex_consts True True True True
           [ex_param_mode, \<lparr>p_key = ''mode'', p_type = Fs_value_is_string, p_string = ''8''\<rparr>]
           (Some 7) (Some 9) ex_state of
      Inl f \<Rightarrow> False
    | Inr (ret, s') \<Rightarrow> ret = - EINVAL \<and> klog s' = [Kfree 1])"
  by (simp add: lifecycle_defs)

lemma volume_lifecycle_no_super_example:
  "(case volume_lifecycle ex_consts True False True True [ex_param_mode] (Some 7) (Some 9)
           ex_state of
      Inl f \<Rightarrow> False
    | Inr (ret, s') \<Rightarrow> ret = - ENOMEM \<and> klog s' = [Kfree 1])"
  by (simp add: lifecycle_defs)

lemma release_log_facts:
  "length (filter (\<lambda>e. e = Kfree p)
     ([Mutex_destroy p] @ (case bd of Some b \<Rightarrow> [Blkdev_put b m] | None \<Rightarrow> []) @
      (case dx of Some d \<Rightarrow> [Fs_put_dax d p] | None \<Rightarrow> []) @ [Kfree p, Kill_litter_super sb])) = 1"
  "puts_before_free p
     ([Mutex_destroy p] @ (case bd of Some b \<Rightarrow> [Blkdev_put b m] | None \<Rightarrow> []) @
      (case dx of Some d \<Rightarrow> [Fs_put_dax d p] | None \<Rightarrow> []) @ [Kfree p, Kill_litter_super sb])"
  "freed_once p [Kfree p]" "puts_before_free p [Kfree p]"
  "freed_once p [Mutex_destroy p, Kfree p, Kill_litter_super sb]"
  "puts_before_free p [Mutex_destroy p, Kfree p, Kill_litter_super sb]"
  by (simp_all add: freed_once_def puts_before_free_def split: option.splits)

text \<open>
  C9. First, one call of \<^verbatim>\<open>tagfs_kill_sb\<close> on a super block with a live configuration
  record: it returns, and the calls it has logged are, in this order, \<^verbatim>\<open>mutex_destroy\<close>;
  \<^verbatim>\<open>blkdev_put\<close> if a block device is attached; \<^verbatim>\<open>fs_put_dax\<close> if a DAX device is attached;
  one \<^verbatim>\<open>kfree\<close> of the record; \<^verbatim>\<open>kill_litter_super\<close>. So every attached device is put before
  the record is freed, the record is freed once, and it is not live afterwards.
  Second, the whole life of a volume, whatever the allocators answer, whatever the options
  are and whichever devices are attached after a successful mount: the run returns; if no
  configuration record could be allocated, nothing has changed; otherwise the record has
  been freed exactly once (by \<^verbatim>\<open>tagfs_free_fc\<close> when the context still owned it, by
  \<^verbatim>\<open>tagfs_kill_sb\<close> when it had gone to the super block), no device is put after that, and
  the record is not live at the end. When the mount succeeded, every device that was
  attached has been put.
\<close>

theorem tagfs_record_freed_once_after_puts:
  "(super_at s sb = Some sbr \<and> s_fs_info sbr = Some p \<and> fsinfo_at s p = Some fsi \<longrightarrow>
      (\<exists>s1. tagfs_kill_sb k s sb = Inr s1 \<and>
         klog s1 = klog s @ [Mutex_destroy p] @
           (case bdevp fsi of Some b \<Rightarrow> [Blkdev_put b (tagfs_blkdev_mode k)] | None \<Rightarrow> []) @
           (case dax_devp fsi of Some d \<Rightarrow> [Fs_put_dax d p] | None \<Rightarrow> []) @
           [Kfree p, Kill_litter_super sb] \<and>
         length (filter (\<lambda>e. e = Kfree p) (drop (length (klog s)) (klog s1))) = 1 \<and>
         puts_before_free p (drop (length (klog s)) (klog s1)) \<and>
         fsinfo_at s1 p = None)) \<and>
   (\<exists>ret s'. volume_lifecycle k fsi_ok sb_ok inode_ok dentry_ok params bdev dax_dev s0 = Inr (ret, s') \<and>
      (\<not> fsi_ok \<longrightarrow> ret \<noteq> 0 \<and> s' = s0) \<and>
      (fsi_ok \<longrightarrow>
         freed_once (length (fsinfo s0)) (drop (length (klog s0)) (klog s')) \<and>
         puts_before_free (length (fsinfo s0)) (drop (length (klog s0)) (klog s')) \<and>
         fsinfo_at s' (length (fsinfo s0)) = None) \<and>
      (ret = 0 \<longrightarrow>
         fsi_ok \<and> sb_ok \<and> inode_ok \<and> dentry_ok \<and>
         (\<forall>b. bdev = Some b \<longrightarrow>
            Blkdev_put b (tagfs_blkdev_mode k) \<in> set (drop (length (klog s0)) (klog s'))) \<and>
         (\<forall>d. dax_dev = Some d \<longrightarrow>
            Fs_put_dax d (length (fsinfo s0)) \<in> set (drop (length (klog s0)) (klog s')))) \<and>
      (params = [] \<and> fsi_ok \<and> sb_ok \<and> inode_ok \<and> dentry_ok \<longrightarrow> ret = 0))"
proof (intro conjI impI)
  assume a: "super_at s sb = Some sbr \<and> s_fs_info sbr = Some p \<and> fsinfo_at s p = Some fsi"
  then have sb: "super_at s sb = Some sbr" and fp: "s_fs_info sbr = Some p"
    and live: "fsinfo_at s p = Some fsi"
    by simp_all
  from tagfs_kill_sb_log [OF sb fp live, of k]
  obtain s1 where r: "tagfs_kill_sb k s sb = Inr s1"
    and l: "klog s1 = klog s @ [Mutex_destroy p] @
           (case bdevp fsi of Some b \<Rightarrow> [Blkdev_put b (tagfs_blkdev_mode k)] | None \<Rightarrow> []) @
           (case dax_devp fsi of Some d \<Rightarrow> [Fs_put_dax d p] | None \<Rightarrow> []) @
           [Kfree p, Kill_litter_super sb]"
    and g: "fsinfo_at s1 p = None"
    by blast
  have d: "drop (length (klog s)) (klog s1) = [Mutex_destroy p] @
           (case bdevp fsi of Some b \<Rightarrow> [Blkdev_put b (tagfs_blkdev_mode k)] | None \<Rightarrow> []) @
           (case dax_devp fsi of Some d \<Rightarrow> [Fs_put_dax d p] | None \<Rightarrow> []) @
           [Kfree p, Kill_litter_super sb]"
    by (simp add: l)
  show "\<exists>s1. tagfs_kill_sb k s sb = Inr s1 \<and>
         klog s1 = klog s @ [Mutex_destroy p] @
           (case bdevp fsi of Some b \<Rightarrow> [Blkdev_put b (tagfs_blkdev_mode k)] | None \<Rightarrow> []) @
           (case dax_devp fsi of Some d \<Rightarrow> [Fs_put_dax d p] | None \<Rightarrow> []) @
           [Kfree p, Kill_litter_super sb] \<and>
         length (filter (\<lambda>e. e = Kfree p) (drop (length (klog s)) (klog s1))) = 1 \<and>
         puts_before_free p (drop (length (klog s)) (klog s1)) \<and>
         fsinfo_at s1 p = None"
    using r l g release_log_facts(1,2) [where p = p and bd = "bdevp fsi" and m = "tagfs_blkdev_mode k"
        and dx = "dax_devp fsi" and sb = sb, folded d]
    by (intro exI [of _ s1] conjI)
next
  define q where "q = length (fsinfo s0)"
  define u where "u = length (supers s0)"
  define mounted where "mounted = [Mutex_destroy q] @
      (case bdev of Some b \<Rightarrow> [Blkdev_put b (tagfs_blkdev_mode k)] | None \<Rightarrow> []) @
      (case dax_dev of Some d \<Rightarrow> [Fs_put_dax d q] | None \<Rightarrow> []) @ [Kfree q, Kill_litter_super u]"
  from volume_lifecycle_log [of k fsi_ok sb_ok inode_ok dentry_ok params bdev dax_dev s0]
  obtain ret s' where r: "volume_lifecycle k fsi_ok sb_ok inode_ok dentry_ok params bdev dax_dev s0 = Inr (ret, s')"
    and nofsi: "\<not> fsi_ok \<longrightarrow> ret \<noteq> 0 \<and> s' = s0"
    and fsi: "fsi_ok \<longrightarrow>
        fsinfo_at s' q = None \<and>
        (ret \<noteq> 0 \<and>
           (klog s' = klog s0 @ [Kfree q] \<or>
            klog s' = klog s0 @ [Mutex_destroy q, Kfree q, Kill_litter_super u]) \<or>
         ret = 0 \<and> sb_ok \<and> inode_ok \<and> dentry_ok \<and> klog s' = klog s0 @ mounted)"
    and nil: "params = [] \<and> fsi_ok \<and> sb_ok \<and> inode_ok \<and> dentry_ok \<longrightarrow> ret = 0"
    unfolding q_def u_def mounted_def by blast
  have m1: "freed_once q mounted" and m2: "puts_before_free q mounted"
    using release_log_facts(1,2) [where p = q and bd = bdev and m = "tagfs_blkdev_mode k"
        and dx = dax_dev and sb = u]
    by (simp_all add: mounted_def freed_once_def)
  have m3: "\<forall>b. bdev = Some b \<longrightarrow> Blkdev_put b (tagfs_blkdev_mode k) \<in> set mounted"
    and m4: "\<forall>d. dax_dev = Some d \<longrightarrow> Fs_put_dax d q \<in> set mounted"
    by (simp_all add: mounted_def)
  have once: "fsi_ok \<longrightarrow> freed_once q (drop (length (klog s0)) (klog s')) \<and>
      puts_before_free q (drop (length (klog s0)) (klog s')) \<and> fsinfo_at s' q = None"
  proof
    assume fsi_ok
    with fsi have dead: "fsinfo_at s' q = None"
      and "klog s' = klog s0 @ [Kfree q] \<or>
           klog s' = klog s0 @ [Mutex_destroy q, Kfree q, Kill_litter_super u] \<or>
           klog s' = klog s0 @ mounted"
      by blast+
    then consider (a) "drop (length (klog s0)) (klog s') = [Kfree q]"
      | (b) "drop (length (klog s0)) (klog s') = [Mutex_destroy q, Kfree q, Kill_litter_super u]"
      | (c) "drop (length (klog s0)) (klog s') = mounted"
      by auto
    then have "freed_once q (drop (length (klog s0)) (klog s')) \<and>
        puts_before_free q (drop (length (klog s0)) (klog s'))"
    proof cases
      case a
      then show ?thesis
        by (simp add: release_log_facts(3,4))
    next
      case b
      then show ?thesis
        by (simp add: release_log_facts(5,6))
    next
      case c
      then show ?thesis
        by (simp add: m1 m2)
    qed
    with dead show "freed_once q (drop (length (klog s0)) (klog s')) \<and>
      puts_before_free q (drop (length (klog s0)) (klog s')) \<and> fsinfo_at s' q = None"
      by simp
  qed
  have puts: "ret = 0 \<longrightarrow> fsi_ok \<and> sb_ok \<and> inode_ok \<and> dentry_ok \<and>
      (\<forall>b. bdev = Some b \<longrightarrow>
         Blkdev_put b (tagfs_blkdev_mode k) \<in> set (drop (length (klog s0)) (klog s'))) \<and>
      (\<forall>d. dax_dev = Some d \<longrightarrow> Fs_put_dax d q \<in> set (drop (length (klog s0)) (klog s')))"
  proof
    assume z: "ret = 0"
    with nofsi have f: fsi_ok
      by blast
    with fsi z have ok: "sb_ok \<and> inode_ok \<and> dentry_ok" and "klog s' = klog s0 @ mounted"
      by blast+
    then have "drop (length (klog s0)) (klog s') = mounted"
      by simp
    with f ok m3 m4 show "fsi_ok \<and> sb_ok \<and> inode_ok \<and> dentry_ok \<and>
      (\<forall>b. bdev = Some b \<longrightarrow>
         Blkdev_put b (tagfs_blkdev_mode k) \<in> set (drop (length (klog s0)) (klog s'))) \<and>
      (\<forall>d. dax_dev = Some d \<longrightarrow> Fs_put_dax d q \<in> set (drop (length (klog s0)) (klog s')))"
      by simp
  qed
  show "\<exists>ret s'. volume_lifecycle k fsi_ok sb_ok inode_ok dentry_ok params bdev dax_dev s0 = Inr (ret, s') \<and>
      (\<not> fsi_ok \<longrightarrow> ret \<noteq> 0 \<and> s' = s0) \<and>
      (fsi_ok \<longrightarrow>
         freed_once (length (fsinfo s0)) (drop (length (klog s0)) (klog s')) \<and>
         puts_before_free (length (fsinfo s0)) (drop (length (klog s0)) (klog s')) \<and>
         fsinfo_at s' (length (fsinfo s0)) = None) \<and>
      (ret = 0 \<longrightarrow>
         fsi_ok \<and> sb_ok \<and> inode_ok \<and> dentry_ok \<and>
         (\<forall>b. bdev = Some b \<longrightarrow>
            Blkdev_put b (tagfs_blkdev_mode k) \<in> set (drop (length (klog s0)) (klog s'))) \<and>
         (\<forall>d. dax_dev = Some d \<longrightarrow>
            Fs_put_dax d (length (fsinfo s0)) \<in> set (drop (length (klog s0)) (klog s')))) \<and>
      (params = [] \<and> fsi_ok \<and> sb_ok \<and> inode_ok \<and> dentry_ok \<longrightarrow> ret = 0)"
    using r nofsi once puts nil unfolding q_def
    by (intro exI [of _ ret] exI [of _ s'] conjI)
qed

theorem tagfs_record_freed_once_after_puts_witness:
  "super_at ex_devs 0 = Some ex_super \<and>
   fsinfo_at ex_devs 0 = Some (ex_fsi\<lparr>bdevp := Some 7, dax_devp := Some 9\<rparr>) \<and>
   (\<exists>s1. tagfs_kill_sb ex_consts ex_devs 0 = Inr s1 \<and>
      klog s1 = [Mutex_destroy 0, Blkdev_put 7 3, Fs_put_dax 9 0, Kfree 0, Kill_litter_super 0] \<and>
      fsinfo_at s1 0 = None) \<and>
   (\<exists>s'. volume_lifecycle ex_consts True True True True [] (Some 7) (Some 9) ex_state = Inr (0, s') \<and>
      freed_once 1 (klog s') \<and> puts_before_free 1 (klog s') \<and>
      Blkdev_put 7 3 \<in> set (klog s') \<and> Fs_put_dax 9 1 \<in> set (klog s') \<and>
      fsinfo_at s' 1 = None) \<and>
   (\<exists>ret. volume_lifecycle ex_consts False True True True [] (Some 7) (Some 9) ex_state =
      Inr (ret, ex_state)) \<and>
   (case volume_lifecycle ex_consts True True True True [ex_param_mode, ex_param_size]
           (Some 7) (Some 9) ex_state of
      Inl f \<Rightarrow> False
    | Inr (ret, s') \<Rightarrow>
        ret = 0 \<and>
        klog s' = [Mutex_destroy 1, Blkdev_put 7 3, Fs_put_dax 9 1, Kfree 1, Kill_litter_super 1]) \<and>
   (case volume_lifecycle ex_consts True True True False [ex_param_mode] (Some 7) (Some 9)
           ex_state of
      Inl f \<Rightarrow> False
    | Inr (ret, s') \<Rightarrow>
        ret = - ENOMEM \<and> klog s' = [Mutex_destroy 1, Kfree 1, Kill_litter_super 1]) \<and>
   (case volume_lifecycle ex_consts True False True True [ex_param_mode] (Some 7) (Some 9)
           ex_state of
      Inl f \<Rightarrow> False
    | Inr (ret, s') \<Rightarrow> ret = - ENOMEM \<and> klog s' = [Kfree 1]) \<and>
   (case volume_lifecycle ex_consts True True True True
           [ex_param_mode, \<lparr>p_key = ''mode'', p_type = Fs_value_is_string, p_string = ''8''\<rparr>]
           (Some 7) (Some 9) ex_state of
      Inl f \<Rightarrow> False
    | Inr (ret, s') \<Rightarrow> ret = - EINVAL \<and> klog s' = [Kfree 1])"
proof -
  have sb: "super_at ex_devs 0 = Some ex_super"
    by (simp add: ex_devs_def ex_state_def super_at_def heap_at_def)
  have fp: "s_fs_info ex_super = Some 0"
    by (simp add: ex_super_def)
  have live: "fsinfo_at ex_devs 0 = Some (ex_fsi\<lparr>bdevp := Some 7, dax_devp := Some 9\<rparr>)"
    by (simp add: ex_devs_def ex_state_def fsinfo_at_def heap_at_def)
  have l: "klog ex_devs = []" "klog ex_state = []" "length (fsinfo ex_state) = 1"
    by (simp_all add: ex_devs_def ex_state_def)
  have m: "tagfs_blkdev_mode ex_consts = 3"
    by (simp add: ex_consts_def)
  have a: "\<exists>s1. tagfs_kill_sb ex_consts ex_devs 0 = Inr s1 \<and>
      klog s1 = [Mutex_destroy 0, Blkdev_put 7 3, Fs_put_dax 9 0, Kfree 0, Kill_litter_super 0] \<and>
      fsinfo_at s1 0 = None"
    using tagfs_record_freed_once_after_puts
      [where s = ex_devs and sb = 0 and sbr = ex_super and p = 0
         and fsi = "ex_fsi\<lparr>bdevp := Some 7, dax_devp := Some 9\<rparr>" and k = ex_consts
         and fsi_ok = True and sb_ok = True and inode_ok = True and dentry_ok = True
         and params = "[]" and bdev = "Some 7" and dax_dev = "Some 9" and ?s0.0 = ex_state]
      sb fp live l m
    by auto
  have b: "\<exists>s'. volume_lifecycle ex_consts True True True True [] (Some 7) (Some 9) ex_state = Inr (0, s') \<and>
      freed_once 1 (klog s') \<and> puts_before_free 1 (klog s') \<and>
      Blkdev_put 7 3 \<in> set (klog s') \<and> Fs_put_dax 9 1 \<in> set (klog s') \<and>
      fsinfo_at s' 1 = None"
    using tagfs_record_freed_once_after_puts
      [where s = ex_devs and sb = 0 and sbr = ex_super and p = 0
         and fsi = "ex_fsi\<lparr>bdevp := Some 7, dax_devp := Some 9\<rparr>" and k = ex_consts
         and fsi_ok = True and sb_ok = True and inode_ok = True and dentry_ok = True
         and params = "[]" and bdev = "Some 7" and dax_dev = "Some 9" and ?s0.0 = ex_state]
      l m
    by auto
  have c: "\<exists>ret. volume_lifecycle ex_consts False True True True [] (Some 7) (Some 9) ex_state =
      Inr (ret, ex_state)"
    using tagfs_record_freed_once_after_puts
      [where s = ex_devs and sb = 0 and sbr = ex_super and p = 0
         and fsi = "ex_fsi\<lparr>bdevp := Some 7, dax_devp := Some 9\<rparr>" and k = ex_consts
         and fsi_ok = False and sb_ok = True and inode_ok = True and dentry_ok = True
         and params = "[]" and bdev = "Some 7" and dax_dev = "Some 9" and ?s0.0 = ex_state]
    by auto
  show ?thesis
    using sb live a b c volume_lifecycle_mounted_example volume_lifecycle_no_dentry_example
      volume_lifecycle_no_super_example volume_lifecycle_bad_option_example
    by (intro conjI)
qed

end
